theory Spec2Isabelle
  imports Complex_Main "HOL-Library.AList"
begin

section \<open>JavaScript values and the object store\<close>

text \<open>
  The client of \<^verbatim>\<open>src/lib/moodleWSClient.js\<close> is dynamically typed, so every
  argument is a \<open>jsval\<close>. Objects that the code can mutate or share live in a store and
  a value of object type is a reference \<open>Obj a\<close> into it. Finite numbers are rationals,
  \<open>NaN\<close> is a value of its own. Strings are lists of characters; what JavaScript
  does to a string by the Unicode tables (the change of case, the test for white space)
  is left to the libraries of a later section. Arrays, moment durations and functions are
  values: no function of the file writes to one of them in a way that the properties
  below observe.
\<close>

type_synonym addr = nat

datatype jsval =
    Undefined
  | Null
  | Bool bool
  | Num rat
  | NaN
  | Str string
  | Obj addr
  | Arr "jsval list"
  | Duration "rat option"
  | Method string
  | BoundSubmit addr "jsval list"
  | Fn nat

text \<open>
  \<open>Duration ms\<close> is a moment duration object whose \<^verbatim>\<open>asMilliseconds()\<close> is \<open>ms\<close>
  (\<open>None\<close> for \<^verbatim>\<open>NaN\<close>). \<open>Method n\<close> is the prototype method \<open>n\<close> of the class,
  not yet called. \<open>BoundSubmit a xs\<close> is \<^verbatim>\<open>submit.bind(a, xs...)\<close>. \<open>Fn\<close> is any other
  function.
\<close>

type_synonym props = "(string \<times> jsval) list"

datatype kind = PlainObject | ClientInstance

type_synonym store = "(kind \<times> props) list"

definition props_of :: "store \<Rightarrow> addr \<Rightarrow> props" where
  "props_of st a = (if a < length st then snd (st ! a) else [])"

definition kind_of :: "store \<Rightarrow> addr \<Rightarrow> kind option" where
  "kind_of st a = (if a < length st then Some (fst (st ! a)) else None)"

definition set_props :: "store \<Rightarrow> addr \<Rightarrow> props \<Rightarrow> store" where
  "set_props st a ps = (if a < length st then st[a := (fst (st ! a), ps)] else st)"

definition alloc :: "store \<Rightarrow> kind \<Rightarrow> props \<Rightarrow> addr \<times> store" where
  "alloc st k ps = (length st, st @ [(k, ps)])"

definition arg :: "jsval list \<Rightarrow> nat \<Rightarrow> jsval" where
  \<comment> \<open>\<^verbatim>\<open>arguments[i]\<close>: undefined beyond the arguments that were passed\<close>
  "arg argv i = (if i < length argv then argv ! i else Undefined)"

definition get_prop :: "props \<Rightarrow> string \<Rightarrow> jsval" where
  "get_prop ps k = (case map_of ps k of None \<Rightarrow> Undefined | Some v \<Rightarrow> v)"

definition set_prop :: "props \<Rightarrow> string \<Rightarrow> jsval \<Rightarrow> props" where
  "set_prop ps k v = AList.update k v ps"

text \<open>The names of the methods that the class body declares (its prototype).\<close>

definition prototype_methods :: "string list" where
  "prototype_methods = [''moodleUrl'', ''apiUrl'', ''submit'', ''registerShortcut'']"

text \<open>
  \<open>member st v k\<close> is the property read \<^verbatim>\<open>v.k\<close> on a value that is not
  \<^verbatim>\<open>undefined\<close> or \<^verbatim>\<open>null\<close>: an own property first, then the prototype of a
  client instance. The built-in members of strings, arrays and functions are left out.
\<close>

definition member :: "store \<Rightarrow> jsval \<Rightarrow> string \<Rightarrow> jsval" where
  "member st v k =
     (case v of
        Obj a \<Rightarrow>
          (case map_of (props_of st a) k of
             Some x \<Rightarrow> x
           | None \<Rightarrow>
               if kind_of st a = Some ClientInstance \<and> k \<in> set prototype_methods
               then Method k else Undefined)
      | _ \<Rightarrow> Undefined)"

text \<open>
  \<open>assign st v k x\<close> is the property write \<^verbatim>\<open>v.k = x\<close>. A write to an object that is
  not in the store (an array, a duration, a function) is not tracked.
\<close>

definition assign :: "store \<Rightarrow> jsval \<Rightarrow> string \<Rightarrow> jsval \<Rightarrow> store" where
  "assign st v k x =
     (case v of Obj a \<Rightarrow> set_props st a (set_prop (props_of st a) k x) | _ \<Rightarrow> st)"

section \<open>The external libraries\<close>

subsection \<open>validate.js predicates\<close>

fun isDefined :: "jsval \<Rightarrow> bool" where
  "isDefined Undefined = False"
| "isDefined Null = False"
| "isDefined _ = True"

fun isString :: "jsval \<Rightarrow> bool" where
  "isString (Str _) = True"
| "isString _ = False"

fun isBoolean :: "jsval \<Rightarrow> bool" where
  "isBoolean (Bool _) = True"
| "isBoolean _ = False"

text \<open>\<^verbatim>\<open>validate.isObject(v)\<close> is \<^verbatim>\<open>v === Object(v)\<close>: true of every non-primitive.\<close>

fun isObject :: "jsval \<Rightarrow> bool" where
  "isObject (Obj _) = True"
| "isObject (Arr _) = True"
| "isObject (Duration _) = True"
| "isObject (Method _) = True"
| "isObject (BoundSubmit _ _) = True"
| "isObject (Fn _) = True"
| "isObject _ = False"

definition isPlainObject :: "store \<Rightarrow> jsval \<Rightarrow> bool" where
  "isPlainObject st v = (case v of Obj a \<Rightarrow> kind_of st a = Some PlainObject | _ \<Rightarrow> False)"

subsection \<open>Library functions taken as parameters\<close>

text \<open>
  The coercions of validateParams, the duration parser of moment, the URL validator
  of validate.js and the built-in string functions of JavaScript are not part of the
  repository. They are parameters of the model:
  \<^item> \<open>vp_toString\<close>, \<open>vp_toNumber\<close>, \<open>vp_toBoolean\<close>: what
    \<^verbatim>\<open>c.toString\<close>, \<^verbatim>\<open>c.toNumber\<close> and \<^verbatim>\<open>c.toBoolean\<close> return on a value that is not
    already a string, a number, a boolean;
  \<^item> \<open>moment_ms\<close>: \<^verbatim>\<open>moment.duration(v).asMilliseconds()\<close> (\<open>None\<close> for \<^verbatim>\<open>NaN\<close>);
  \<^item> \<open>url_valid\<close>: the \<^verbatim>\<open>url\<close> validator with \<^verbatim>\<open>schemes: ['https']\<close> and
    \<^verbatim>\<open>allowLocal: true\<close>, on a string;
  \<^item> \<open>js_toString\<close>: the string that the operator \<^verbatim>\<open>+\<close> makes of an operand that is
    not a string;
  \<^item> \<open>toUpperCase\<close>, \<open>toLowerCase\<close>: the methods of that name of
    \<^verbatim>\<open>String.prototype\<close>, which follow the Unicode case mappings;
  \<^item> \<open>EMPTY_STRING_REGEXP\<close>: the test of the regular expression \<^verbatim>\<open>/^\s*$/\<close> of that
    name in validate.js, whose class \<^verbatim>\<open>\s\<close> is the white space of Unicode.
  A library function is given the value and, for an object of the store, the
  properties of that object (\<open>own_props\<close>); what it would read deeper in the store is
  not modelled.
\<close>

record env =
  vp_toString :: "jsval \<Rightarrow> props \<Rightarrow> jsval"
  vp_toNumber :: "jsval \<Rightarrow> props \<Rightarrow> rat option"
  vp_toBoolean :: "jsval \<Rightarrow> props \<Rightarrow> bool"
  moment_ms :: "jsval \<Rightarrow> props \<Rightarrow> rat option"
  url_valid :: "string \<Rightarrow> bool"
  js_toString :: "jsval \<Rightarrow> props \<Rightarrow> string"
  toUpperCase :: "string \<Rightarrow> string"
  toLowerCase :: "string \<Rightarrow> string"
  EMPTY_STRING_REGEXP :: "string \<Rightarrow> bool"

definition own_props :: "store \<Rightarrow> jsval \<Rightarrow> props" where
  "own_props st v = (case v of Obj a \<Rightarrow> props_of st a | _ \<Rightarrow> [])"

definition num_of :: "rat option \<Rightarrow> jsval" where
  "num_of m = (case m of None \<Rightarrow> NaN | Some q \<Rightarrow> Num q)"

text \<open>A coercion leaves a value that already has the target type as it is.\<close>

definition c_toString :: "env \<Rightarrow> store \<Rightarrow> jsval \<Rightarrow> jsval" where
  "c_toString E st v = (case v of Str s \<Rightarrow> Str s | _ \<Rightarrow> vp_toString E v (own_props st v))"

definition c_toNumber :: "env \<Rightarrow> store \<Rightarrow> jsval \<Rightarrow> jsval" where
  "c_toNumber E st v = (case v of Num q \<Rightarrow> Num q | _ \<Rightarrow> num_of (vp_toNumber E v (own_props st v)))"

definition c_toBoolean :: "env \<Rightarrow> store \<Rightarrow> jsval \<Rightarrow> jsval" where
  "c_toBoolean E st v = (case v of Bool b \<Rightarrow> Bool b | _ \<Rightarrow> Bool (vp_toBoolean E v (own_props st v)))"

text \<open>
  \<^verbatim>\<open>validate.isEmpty\<close>: \<^verbatim>\<open>undefined\<close> and \<^verbatim>\<open>null\<close>, a string that
  \<^verbatim>\<open>EMPTY_STRING_REGEXP\<close> matches (white space only), an array of length zero and an
  object with no enumerable property are empty; functions are not, and a moment
  duration has properties of its own.
\<close>

fun isEmpty :: "env \<Rightarrow> store \<Rightarrow> jsval \<Rightarrow> bool" where
  "isEmpty E st Undefined = True"
| "isEmpty E st Null = True"
| "isEmpty E st (Str s) = EMPTY_STRING_REGEXP E s"
| "isEmpty E st (Arr xs) = (xs = [])"
| "isEmpty E st (Obj a) = (props_of st a = [])"
| "isEmpty E st _ = False"

subsection \<open>Regular expressions and operators\<close>

definition lower_letters :: string where
  "lower_letters = ''abcdefghijklmnopqrstuvwxyz''"

definition upper_letters :: string where
  "upper_letters = ''ABCDEFGHIJKLMNOPQRSTUVWXYZ''"

definition digits :: string where
  "digits = ''0123456789''"

text \<open>
  The \<^verbatim>\<open>format\<close> validator of validate.js runs \<^verbatim>\<open>pattern.exec(value)\<close> and accepts
  only when the match covers the whole string. Each pattern of the file is written as
  the predicate on the whole string that this gives.
\<close>

definition re_http_method :: "string \<Rightarrow> bool" where
  \<comment> \<open>\<^verbatim>\<open>/GET|POST|PUT/\<close>\<close>
  "re_http_method s = (s = ''GET'' \<or> s = ''POST'' \<or> s = ''PUT'')"

definition re_data_format :: "string \<Rightarrow> bool" where
  \<comment> \<open>\<^verbatim>\<open>/json|xml/\<close>\<close>
  "re_data_format s = (s = ''json'' \<or> s = ''xml'')"

definition re_function_name :: "string \<Rightarrow> bool" where
  \<comment> \<open>\<^verbatim>\<open>/[a-z_]+/\<close>\<close>
  "re_function_name s = (s \<noteq> [] \<and> list_all (\<lambda>c. c \<in> set (lower_letters @ ''_'')) s)"

definition re_method_name :: "string \<Rightarrow> bool" where
  \<comment> \<open>\<^verbatim>\<open>/[a-zA-Z_][a-zA-Z_]*/\<close>\<close>
  "re_method_name s =
     (s \<noteq> [] \<and> list_all (\<lambda>c. c \<in> set (lower_letters @ upper_letters @ ''_'')) s)"

definition re_token :: "string \<Rightarrow> bool" where
  \<comment> \<open>\<^verbatim>\<open>"[a-z0-9]{32}"\<close>\<close>
  "re_token s = (length s = 32 \<and> list_all (\<lambda>c. c \<in> set (lower_letters @ digits)) s)"

definition ends_with_slash :: "string \<Rightarrow> bool" where
  \<comment> \<open>\<^verbatim>\<open>v.match(/\/$/)\<close>\<close>
  "ends_with_slash s = (s \<noteq> [] \<and> last s = CHR ''/'')"

definition re_trailing_slash :: "string \<Rightarrow> bool" where
  \<comment> \<open>\<^verbatim>\<open>/.*\//\<close>: the dot matches no line terminator\<close>
  "re_trailing_slash s =
     (ends_with_slash s \<and> list_all (\<lambda>c. c \<noteq> CHR 0x0A \<and> c \<noteq> CHR 0x0D) s)"


definition typeof :: "jsval \<Rightarrow> string" where
  "typeof v =
     (case v of
        Undefined \<Rightarrow> ''undefined''
      | Bool _ \<Rightarrow> ''boolean''
      | Num _ \<Rightarrow> ''number''
      | NaN \<Rightarrow> ''number''
      | Str _ \<Rightarrow> ''string''
      | Method _ \<Rightarrow> ''function''
      | BoundSubmit _ _ \<Rightarrow> ''function''
      | Fn _ \<Rightarrow> ''function''
      | _ \<Rightarrow> ''object'')"

definition js_concat :: "env \<Rightarrow> store \<Rightarrow> jsval \<Rightarrow> string \<Rightarrow> jsval" where
  \<comment> \<open>\<^verbatim>\<open>v + s\<close> for a string \<open>s\<close>\<close>
  "js_concat E st v s = (case v of Str a \<Rightarrow> Str (a @ s) | _ \<Rightarrow> Str (js_toString E v (own_props st v) @ s))"

fun truthy :: "jsval \<Rightarrow> bool" where
  "truthy Undefined = False"
| "truthy Null = False"
| "truthy (Bool b) = b"
| "truthy (Num q) = (q \<noteq> 0)"
| "truthy NaN = False"
| "truthy (Str s) = (s \<noteq> [])"
| "truthy _ = True"

definition js_not :: "jsval \<Rightarrow> jsval" where
  \<comment> \<open>\<^verbatim>\<open>!v\<close>\<close>
  "js_not v = Bool (\<not> truthy v)"

section \<open>The validator\<close>

text \<open>
  The client validates its arguments with \<^verbatim>\<open>validateParams.assert\<close>, a library
  whose code is not in the repository. The specification describes it as the validator
  of its section 4.3, and this section follows that description. A failure is the
  \<^verbatim>\<open>ValidationError\<close> that the library throws, reduced to the name of the parameter
  and the reason, in the taxonomy of section 7 of the specification.
\<close>

datatype reason = MissingParameter | InvalidFormat | InvalidUrl | InvalidToken | InvalidDuration

datatype error = ValidationError string reason | TypeError

type_synonym validator = "store \<Rightarrow> jsval \<Rightarrow> reason option"

record constraint =
  cname :: string
  defaultWhenUndefined :: "jsval option"
  defaultWhenEmpty :: "jsval option"
  coerce :: "(store \<Rightarrow> jsval \<Rightarrow> store \<times> jsval) option"
  validators :: "validator list"

text \<open>
  Modelled from the spec: the defaulting of \<^verbatim>\<open>validateParams\<close>, which is not in the
  repository. A declared default replaces an argument that is undefined
  (\<open>defaultWhenUndefined\<close>) or empty (\<open>defaultWhenEmpty\<close>), before coercion and
  validation, and at most one default is applied. Emptiness is \<^verbatim>\<open>validate.isEmpty\<close>,
  the test that the constructor itself uses when it defaults the keys of the options by
  hand; it covers the undefined, null and empty string of the specification.
\<close>

definition apply_default :: "env \<Rightarrow> store \<Rightarrow> constraint \<Rightarrow> jsval \<Rightarrow> jsval" where
  "apply_default E st c v =
     (case (v, defaultWhenUndefined c) of
        (Undefined, Some d) \<Rightarrow> d
      | _ \<Rightarrow>
          (case defaultWhenEmpty c of
             Some d \<Rightarrow> if isEmpty E st v then d else v
           | None \<Rightarrow> v))"

fun first_failure :: "validator list \<Rightarrow> store \<Rightarrow> jsval \<Rightarrow> reason option" where
  "first_failure [] st v = None"
| "first_failure (f # fs) st v =
     (case f st v of Some r \<Rightarrow> Some r | None \<Rightarrow> first_failure fs st v)"

text \<open>
  Modelled from the spec: the pipeline of \<^verbatim>\<open>validateParams\<close> for one parameter, which
  is not in the repository. The default is applied, then the coercion runs, then the
  checks in the order of their declaration; the first check that fails gives the reason.
\<close>

definition validate_param ::
  "env \<Rightarrow> store \<Rightarrow> constraint \<Rightarrow> jsval \<Rightarrow> store \<times> (error + jsval)" where
  "validate_param E st c v =
     (let v1 = apply_default E st c v;
          (st', v2) = (case coerce c of None \<Rightarrow> (st, v1) | Some f \<Rightarrow> f st v1)
      in case first_failure (validators c) st' v2 of
           Some r \<Rightarrow> (st', Inl (ValidationError (cname c) r))
         | None \<Rightarrow> (st', Inr v2))"

text \<open>
  Modelled from the spec: \<^verbatim>\<open>validateParams.assert\<close>, which is not in the repository.
  The constraints are applied to the arguments by position, a missing argument being
  \<^verbatim>\<open>undefined\<close>. The first parameter that fails ends the validation with its failure;
  otherwise the result is the bag of the normalised arguments by name. The bag is
  filled in the order of the declarations, as assignments to the properties of an
  object, so of two parameters declared under one name it holds the later one.
\<close>

fun assert_params ::
  "env \<Rightarrow> store \<Rightarrow> constraint list \<Rightarrow> jsval list \<Rightarrow> props \<Rightarrow> store \<times> (error + props)" where
  "assert_params E st [] argv bag = (st, Inr bag)"
| "assert_params E st (c # cs) argv bag =
     (case validate_param E st c (case argv of [] \<Rightarrow> Undefined | x # _ \<Rightarrow> x) of
        (st', Inl e) \<Rightarrow> (st', Inl e)
      | (st', Inr v) \<Rightarrow> assert_params E st' cs (tl argv) (set_prop bag (cname c) v))"

subsection \<open>The checks\<close>

text \<open>
  Modelled from the spec: the checks of validate.js and validateParams that the
  constraints of the client name, none of them in the repository. \<open>presence\<close> fails an
  argument that is undefined or null with \<open>MissingParameter\<close>; every other check
  passes such an argument. \<open>format\<close> accepts a string that the pattern matches as a
  whole; \<open>numericality\<close> is the check \<^verbatim>\<open>onlyInteger: true, greaterThan: 0\<close> of the
  timeout, whose failure is \<open>InvalidDuration\<close>; \<open>dictionary\<close> accepts a plain object
  and applies the checks of \<^verbatim>\<open>mapConstraints\<close> to the values under the declared keys,
  leaving the other keys alone.
\<close>

definition presence :: validator where
  "presence st v = (if isDefined v then None else Some MissingParameter)"

definition hasTypeof :: "string \<Rightarrow> validator" where
  "hasTypeof t st v = (if \<not> isDefined v \<or> typeof v = t then None else Some InvalidFormat)"

definition format :: "reason \<Rightarrow> (string \<Rightarrow> bool) \<Rightarrow> validator" where
  "format r p st v =
     (case v of
        Undefined \<Rightarrow> None
      | Null \<Rightarrow> None
      | Str s \<Rightarrow> if p s then None else Some r
      | _ \<Rightarrow> Some r)"

definition url :: "env \<Rightarrow> validator" where
  "url E st v =
     (case v of
        Undefined \<Rightarrow> None
      | Null \<Rightarrow> None
      | Str s \<Rightarrow> if url_valid E s then None else Some InvalidUrl
      | _ \<Rightarrow> Some InvalidUrl)"

definition is_whole :: "rat \<Rightarrow> bool" where
  "is_whole q = (of_int \<lfloor>q\<rfloor> = q)"

definition numericality :: validator where
  \<comment> \<open>the value it meets is what \<open>timeoutMS_coerce\<close> returns: a number or NaN\<close>
  "numericality st v =
     (case v of
        Undefined \<Rightarrow> None
      | Null \<Rightarrow> None
      | Num q \<Rightarrow> if is_whole q \<and> 0 < q then None else Some InvalidDuration
      | _ \<Rightarrow> Some InvalidDuration)"

fun map_failure :: "(string \<times> validator list) list \<Rightarrow> store \<Rightarrow> props \<Rightarrow> reason option" where
  "map_failure [] st ps = None"
| "map_failure ((k, fs) # kcs) st ps =
     (case first_failure fs st (get_prop ps k) of
        Some r \<Rightarrow> Some r
      | None \<Rightarrow> map_failure kcs st ps)"

definition dictionary :: "(string \<times> validator list) list \<Rightarrow> validator" where
  \<comment> \<open>\<^verbatim>\<open>dictionary: true\<close> is \<open>dictionary []\<close>; the list is \<^verbatim>\<open>mapConstraints\<close>\<close>
  "dictionary mc st v =
     (case v of
        Undefined \<Rightarrow> None
      | Null \<Rightarrow> None
      | Obj a \<Rightarrow>
          if isPlainObject st v then map_failure mc st (props_of st a) else Some InvalidFormat
      | _ \<Rightarrow> Some InvalidFormat)"

section \<open>The constraints of the client: \<^verbatim>\<open>vpCons\<close>\<close>

definition MOODLE_API_PATH :: string where
  "MOODLE_API_PATH = ''webservice/rest/server.php''"

definition httpMethod_coerce :: "env \<Rightarrow> store \<Rightarrow> jsval \<Rightarrow> jsval" where
  "httpMethod_coerce E st v =
     (case c_toString E st v of Str s \<Rightarrow> Str (toUpperCase E s) | w \<Rightarrow> w)"

definition httpMethod :: "env \<Rightarrow> constraint" where
  "httpMethod E =
     \<lparr>cname = [], defaultWhenUndefined = None, defaultWhenEmpty = Some (Str ''GET''),
      coerce = Some (\<lambda>st v. (st, httpMethod_coerce E st v)),
      validators = [hasTypeof ''string'', format InvalidFormat re_http_method]\<rparr>"

definition wsDataFormat_coerce :: "env \<Rightarrow> store \<Rightarrow> jsval \<Rightarrow> jsval" where
  "wsDataFormat_coerce E st v =
     (case c_toString E st v of Str s \<Rightarrow> Str (toLowerCase E s) | w \<Rightarrow> w)"

definition wsDataFormat :: "env \<Rightarrow> constraint" where
  "wsDataFormat E =
     \<lparr>cname = [], defaultWhenUndefined = None, defaultWhenEmpty = Some (Str ''json''),
      coerce = Some (\<lambda>st v. (st, wsDataFormat_coerce E st v)),
      validators = [hasTypeof ''string'', format InvalidFormat re_data_format]\<rparr>"

definition wsFunctionName_coerce :: "env \<Rightarrow> store \<Rightarrow> jsval \<Rightarrow> jsval" where
  "wsFunctionName_coerce E st v =
     (case c_toString E st v of Str s \<Rightarrow> Str (toLowerCase E s) | w \<Rightarrow> w)"

definition wsFunctionName :: "env \<Rightarrow> constraint" where
  "wsFunctionName E =
     \<lparr>cname = [], defaultWhenUndefined = None, defaultWhenEmpty = None,
      coerce = Some (\<lambda>st v. (st, wsFunctionName_coerce E st v)),
      validators = [hasTypeof ''string'', format InvalidFormat re_function_name]\<rparr>"

definition gt0 :: "rat option \<Rightarrow> bool" where
  \<comment> \<open>\<^verbatim>\<open>ms > 0\<close>, false of NaN\<close>
  "gt0 m = (case m of None \<Rightarrow> False | Some q \<Rightarrow> 0 < q)"

definition timeoutMS_coerce :: "env \<Rightarrow> store \<Rightarrow> jsval \<Rightarrow> jsval" where
  "timeoutMS_coerce E st v =
     (case v of
        Duration ms \<Rightarrow> num_of ms
      | _ \<Rightarrow>
          if (isObject v \<or> isString v) \<and> gt0 (moment_ms E v (own_props st v))
          then num_of (moment_ms E v (own_props st v))
          else c_toNumber E st v)"

definition timeoutMS :: "env \<Rightarrow> constraint" where
  "timeoutMS E =
     \<lparr>cname = [], defaultWhenUndefined = None, defaultWhenEmpty = Some (Num 5000),
      coerce = Some (\<lambda>st v. (st, timeoutMS_coerce E st v)),
      validators = [numericality]\<rparr>"

definition jsMethodName :: "env \<Rightarrow> constraint" where
  "jsMethodName E =
     \<lparr>cname = [], defaultWhenUndefined = None, defaultWhenEmpty = None,
      coerce = Some (\<lambda>st v. (st, c_toString E st v)),
      validators = [hasTypeof ''string'', format InvalidFormat re_method_name]\<rparr>"

text \<open>
  \<^verbatim>\<open>extendObject({vpopt_name: n, presence: true}, c)\<close> names the constraint and puts
  \<open>presence\<close> before its checks; \<^verbatim>\<open>paramToAttrConstraints(c)\<close> keeps the checks
  of \<open>c\<close> and drops its default and its coercion.
\<close>

definition required :: "string \<Rightarrow> constraint \<Rightarrow> constraint" where
  "required n c = c\<lparr>cname := n, validators := presence # validators c\<rparr>"

definition paramToAttrConstraints :: "constraint \<Rightarrow> validator list" where
  "paramToAttrConstraints c = validators c"


section \<open>The class \<^verbatim>\<open>MoodleWSClient\<close>\<close>

subsection \<open>The constructor\<close>

definition moodleBaseUrl_coerce :: "jsval \<Rightarrow> jsval" where
  \<comment> \<open>ensure a trailing slash\<close>
  "moodleBaseUrl_coerce v =
     (case v of Str s \<Rightarrow> if \<not> ends_with_slash s then Str (s @ ''/'') else v | _ \<Rightarrow> v)"

text \<open>
  The coercion of the options parameter writes the three keys into the object it is
  given and returns that object. The two defaults are the \<^verbatim>\<open>vpopt_defaultWhenEmpty\<close>
  of \<open>wsDataFormat\<close> and of \<open>timeoutMS\<close>.
\<close>

definition options_coerce :: "env \<Rightarrow> store \<Rightarrow> jsval \<Rightarrow> store \<times> jsval" where
  "options_coerce E st v =
     (if \<not> isObject v then (st, v)
      else
        let a0 = member st v ''acceptUntrustedTLSCert'';
            st1 = assign st v ''acceptUntrustedTLSCert''
                    (if isDefined a0 then c_toBoolean E st a0 else Bool False);
            d0 = member st1 v ''dataFormat'';
            st2 = assign st1 v ''dataFormat''
                    (if \<not> isEmpty E st1 d0 then wsDataFormat_coerce E st1 d0 else Str ''json'');
            t0 = member st2 v ''timeout'';
            st3 = assign st2 v ''timeout''
                    (if \<not> isEmpty E st2 t0 then timeoutMS_coerce E st2 t0 else Num 5000)
        in (st3, v))"

definition options_mapConstraints :: "env \<Rightarrow> (string \<times> validator list) list" where
  "options_mapConstraints E =
     [(''acceptUntrustedTLSCert'', [presence, hasTypeof ''boolean'']),
      (''dataFormat'', presence # paramToAttrConstraints (wsDataFormat E)),
      (''timeout'', presence # paramToAttrConstraints (timeoutMS E))]"

text \<open>
  The constraint list of the constructor. \<open>dflt\<close> is the object that the literal
  \<^verbatim>\<open>{}\<close> of \<^verbatim>\<open>defaultWhenUndefined\<close> creates in this call.
\<close>

definition param_moodleBaseUrl :: "env \<Rightarrow> constraint" where
  "param_moodleBaseUrl E =
     \<lparr>cname = ''moodleBaseUrl'', defaultWhenUndefined = None, defaultWhenEmpty = None,
      coerce = Some (\<lambda>st v. (st, moodleBaseUrl_coerce v)),
      validators = [presence, url E, format InvalidFormat re_trailing_slash]\<rparr>"

definition param_token :: constraint where
  "param_token =
     \<lparr>cname = ''token'', defaultWhenUndefined = None, defaultWhenEmpty = None,
      coerce = None,
      validators = [presence, format InvalidToken re_token]\<rparr>"

definition param_options :: "env \<Rightarrow> jsval \<Rightarrow> constraint" where
  "param_options E dflt =
     \<lparr>cname = ''options'', defaultWhenUndefined = Some dflt, defaultWhenEmpty = None,
      coerce = Some (options_coerce E),
      validators = [dictionary (options_mapConstraints E)]\<rparr>"

definition constructor_constraints :: "env \<Rightarrow> jsval \<Rightarrow> constraint list" where
  "constructor_constraints E dflt = [param_moodleBaseUrl E, param_token, param_options E dflt]"

text \<open>
  \<^verbatim>\<open>new MoodleWSClient(argv...)\<close>: the new instance is allocated, the arguments are
  validated, and the three fields are stored. The result is the store after the call
  and either the failure or the reference to the instance.
\<close>

definition constructor :: "env \<Rightarrow> store \<Rightarrow> jsval list \<Rightarrow> store \<times> (error + jsval)" where
  "constructor E st argv =
     (let (this, st1) = alloc st ClientInstance [];
          (dflt, st2) = alloc st1 PlainObject []
      in case assert_params E st2 (constructor_constraints E (Obj dflt)) argv [] of
           (st3, Inl e) \<Rightarrow> (st3, Inl e)
         | (st3, Inr args) \<Rightarrow>
             (let st4 = assign st3 (Obj this) ''_moodleUrl'' (get_prop args ''moodleBaseUrl'');
                  st5 = assign st4 (Obj this) ''_token'' (get_prop args ''token'');
                  st6 = assign st5 (Obj this) ''_options'' (get_prop args ''options'')
              in (st6, Inr (Obj this))))"

subsection \<open>The accessors\<close>

definition moodleUrl :: "store \<Rightarrow> addr \<Rightarrow> jsval" where
  "moodleUrl st this = member st (Obj this) ''_moodleUrl''"

definition apiUrl :: "env \<Rightarrow> store \<Rightarrow> addr \<Rightarrow> jsval" where
  "apiUrl E st this = js_concat E st (member st (Obj this) ''_moodleUrl'') MOODLE_API_PATH"

subsection \<open>\<^verbatim>\<open>submit\<close>\<close>

record reqOpts =
  uri :: jsval
  http_method :: jsval
  qs :: props
  strictSSL :: jsval
  timeout :: jsval

text \<open>
  The constraint list of \<^verbatim>\<open>submit\<close>: four entries, the last two both named
  \<^verbatim>\<open>wsParameters\<close>.
\<close>

definition submit_constraints :: "env \<Rightarrow> jsval \<Rightarrow> constraint list" where
  "submit_constraints E dflt =
     [required ''method'' (httpMethod E),
      required ''wsFunctionName'' (wsFunctionName E),
      \<lparr>cname = ''wsParameters'', defaultWhenUndefined = None, defaultWhenEmpty = None,
       coerce = None, validators = [dictionary []]\<rparr>,
      \<lparr>cname = ''wsParameters'', defaultWhenUndefined = Some dflt, defaultWhenEmpty = None,
       coerce = None, validators = [dictionary []]\<rparr>]"

text \<open>
  The keys that \<^verbatim>\<open>for(param in v)\<close> visits: the properties of an object, none for
  undefined and null. The value that reaches the loop has passed \<open>dictionary\<close>. Each
  step assigns under the key it visits, so the order of the visit does not matter to
  the result.
\<close>

definition for_in_keys :: "store \<Rightarrow> jsval \<Rightarrow> string list" where
  "for_in_keys st v = (case v of Obj a \<Rightarrow> map fst (props_of st a) | _ \<Rightarrow> [])"

fun copy_params :: "store \<Rightarrow> jsval \<Rightarrow> string list \<Rightarrow> props \<Rightarrow> props" where
  \<comment> \<open>the loop body \<^verbatim>\<open>reqOpts.qs[param] = args.wsParameters[param]\<close>\<close>
  "copy_params st w [] q = q"
| "copy_params st w (param # rest) q = copy_params st w rest (set_prop q param (member st w param))"

text \<open>
  \<open>submit_reqOpts\<close> is the body of \<^verbatim>\<open>submit\<close> up to its last statement: the value of
  the local \<^verbatim>\<open>reqOpts\<close> after the loop. Reading a property of \<^verbatim>\<open>this._options\<close>
  throws a TypeError when that field is undefined or null.
\<close>

definition submit_args :: "env \<Rightarrow> store \<Rightarrow> jsval list \<Rightarrow> store \<times> (error + props)" where
  \<comment> \<open>the call of \<^verbatim>\<open>validateParams.assert\<close> that opens \<^verbatim>\<open>submit\<close>\<close>
  "submit_args E st argv =
     (let (dflt, st1) = alloc st PlainObject [] in
      assert_params E st1 (submit_constraints E (Obj dflt)) argv [])"

definition submit_reqOpts :: "env \<Rightarrow> store \<Rightarrow> addr \<Rightarrow> jsval list \<Rightarrow> store \<times> (error + reqOpts)" where
  "submit_reqOpts E st this argv =
     (case submit_args E st argv of
        (st2, Inl e) \<Rightarrow> (st2, Inl e)
      | (st2, Inr args) \<Rightarrow>
          (let options = member st2 (Obj this) ''_options'' in
           if \<not> isDefined options then (st2, Inl TypeError)
           else
             let q0 = [(''wstoken'', member st2 (Obj this) ''_token''),
                       (''wsfunction'', get_prop args ''wsFunctionName''),
                       (''moodlewsrestformat'', member st2 options ''dataFormat'')];
                 w = get_prop args ''wsParameters''
             in (st2, Inr \<lparr>uri = member st2 (Obj this) ''apiUrl'',
                           http_method = get_prop args ''method'',
                           qs = copy_params st2 w (for_in_keys st2 w) q0,
                           strictSSL = js_not (member st2 options ''acceptUntrustedTLSCert''),
                           timeout = member st2 options ''timeout''\<rparr>)))"

text \<open>
  The function ends after the loop: it has no \<^verbatim>\<open>return\<close> and hands \<^verbatim>\<open>reqOpts\<close> to
  nothing, so a call that passes validation returns \<^verbatim>\<open>undefined\<close>.
\<close>

definition submit :: "env \<Rightarrow> store \<Rightarrow> addr \<Rightarrow> jsval list \<Rightarrow> store \<times> (error + jsval)" where
  "submit E st this argv =
     (case submit_reqOpts E st this argv of
        (st', Inl e) \<Rightarrow> (st', Inl e)
      | (st', Inr r) \<Rightarrow> (st', Inr Undefined))"

subsection \<open>\<^verbatim>\<open>registerShortcut\<close>\<close>

definition registerShortcut_constraints :: "env \<Rightarrow> constraint list" where
  "registerShortcut_constraints E =
     [required ''shortcut'' (jsMethodName E),
      required ''method'' (httpMethod E),
      required ''wsFunctionName'' (wsFunctionName E)]"

text \<open>
  \<^verbatim>\<open>f.bind(self, xs...)\<close> for the value \<open>f\<close> found under \<^verbatim>\<open>self.submit\<close>: the
  prototype method becomes a bound call of \<^verbatim>\<open>submit\<close>, a bound call gets further
  leading arguments, and a value that is no function has no \<^verbatim>\<open>bind\<close>.
\<close>

definition bind_submit :: "jsval \<Rightarrow> addr \<Rightarrow> jsval list \<Rightarrow> jsval option" where
  "bind_submit f self xs =
     (case f of
        Method n \<Rightarrow> if n = ''submit'' then Some (BoundSubmit self xs) else Some (Fn 0)
      | BoundSubmit a ys \<Rightarrow> Some (BoundSubmit a (ys @ xs))
      | Fn k \<Rightarrow> Some (Fn k)
      | _ \<Rightarrow> None)"

definition prop_key :: "env \<Rightarrow> store \<Rightarrow> jsval \<Rightarrow> string" where
  "prop_key E st v = (case v of Str n \<Rightarrow> n | _ \<Rightarrow> js_toString E v (own_props st v))"

definition registerShortcut :: "env \<Rightarrow> store \<Rightarrow> addr \<Rightarrow> jsval list \<Rightarrow> store \<times> (error + jsval)" where
  "registerShortcut E st this argv =
     (case assert_params E st (registerShortcut_constraints E) argv [] of
        (st1, Inl e) \<Rightarrow> (st1, Inl e)
      | (st1, Inr args) \<Rightarrow>
          (case bind_submit (member st1 (Obj this) ''submit'') this
                  [get_prop args ''method'', get_prop args ''wsFunctionName''] of
             None \<Rightarrow> (st1, Inl TypeError)
           | Some func \<Rightarrow>
               (assign st1 (Obj this) (prop_key E st1 (get_prop args ''shortcut'')) func,
                Inr (Obj this))))"

text \<open>
  \<open>invoke E st inst name argv\<close> is the call \<^verbatim>\<open>inst.name(argv...)\<close>. Calling a member
  that is no function is a TypeError; no function of the class stores an opaque
  function \<open>Fn\<close> on an instance.
\<close>

definition invoke :: "env \<Rightarrow> store \<Rightarrow> addr \<Rightarrow> string \<Rightarrow> jsval list \<Rightarrow> store \<times> (error + jsval)" where
  "invoke E st inst name argv =
     (case member st (Obj inst) name of
        BoundSubmit a xs \<Rightarrow> submit E st a (xs @ argv)
      | Method n \<Rightarrow>
          if n = ''submit'' then submit E st inst argv
          else if n = ''registerShortcut'' then registerShortcut E st inst argv
          else if n = ''moodleUrl'' then (st, Inr (moodleUrl st inst))
          else if n = ''apiUrl'' then (st, Inr (apiUrl E st inst))
          else (st, Inl TypeError)
      | _ \<Rightarrow> (st, Inl TypeError))"

section \<open>An instance of the libraries for worked examples\<close>

text \<open>
  The general theorems below hold for every \<open>env\<close>. The examples need one:
  \<open>example_env\<close> accepts an \<^verbatim>\<open>https://\<close> URL without white space, reads a duration
  object as the sum of its \<^verbatim>\<open>milliseconds\<close>, \<^verbatim>\<open>seconds\<close>, \<^verbatim>\<open>minutes\<close> and
  \<^verbatim>\<open>hours\<close>, resolves every other value to a duration of length zero, leaves a value
  that is no string as it is, and turns into a number only what is one already. Its
  string functions are those of JavaScript on strings of ASCII characters, the only
  strings of the examples: \<open>ascii_toUpperCase\<close> maps the letters \<open>a\<close> to \<open>z\<close>,
  \<open>ascii_toLowerCase\<close> the letters \<open>A\<close> to \<open>Z\<close>, and the white space of
  \<open>ascii_blank\<close> is the six characters of \<^verbatim>\<open>\s\<close> in ASCII. Besides these the
  examples rest on two facts of it, each true of the libraries: the URL validator
  accepts \<^verbatim>\<open>https://localhost/\<close>, as the tests of the repository expect, and moment
  resolves \<^verbatim>\<open>{seconds: 7}\<close> to 7000 milliseconds.
\<close>

definition ascii_toUpperCase :: "string \<Rightarrow> string" where
  "ascii_toUpperCase s =
     map (\<lambda>c. case map_of (zip lower_letters upper_letters) c of Some u \<Rightarrow> u | None \<Rightarrow> c) s"

definition ascii_toLowerCase :: "string \<Rightarrow> string" where
  "ascii_toLowerCase s =
     map (\<lambda>c. case map_of (zip upper_letters lower_letters) c of Some l \<Rightarrow> l | None \<Rightarrow> c) s"

definition ascii_space :: "char \<Rightarrow> bool" where
  "ascii_space c = (c \<in> set [CHR 0x09, CHR 0x0A, CHR 0x0B, CHR 0x0C, CHR 0x0D, CHR '' ''])"

definition ascii_blank :: "string \<Rightarrow> bool" where
  "ascii_blank s = list_all ascii_space s"

definition unit_ms :: "props \<Rightarrow> string \<Rightarrow> rat \<Rightarrow> rat" where
  "unit_ms ps k f = (case get_prop ps k of Num q \<Rightarrow> q * f | _ \<Rightarrow> 0)"

definition example_env :: env where
  "example_env =
     \<lparr>vp_toString = (\<lambda>v ps. v),
      vp_toNumber = (\<lambda>v ps. None),
      vp_toBoolean = (\<lambda>v ps. truthy v),
      moment_ms = (\<lambda>v ps. case v of
                      Obj a \<Rightarrow> Some (unit_ms ps ''milliseconds'' 1 + unit_ms ps ''seconds'' 1000
                                     + unit_ms ps ''minutes'' 60000 + unit_ms ps ''hours'' 3600000)
                    | _ \<Rightarrow> Some 0),
      url_valid = (\<lambda>s. take 8 s = ''https://'' \<and> 8 < length s \<and> list_all (\<lambda>c. \<not> ascii_space c) s),
      js_toString = (\<lambda>v ps. []),
      toUpperCase = ascii_toUpperCase,
      toLowerCase = ascii_toLowerCase,
      EMPTY_STRING_REGEXP = ascii_blank\<rparr>"


section \<open>Notions used by the properties\<close>

text \<open>\<open>stored_option st this k\<close> is the read \<^verbatim>\<open>this._options.k\<close> on a constructed client.\<close>

definition stored_option :: "store \<Rightarrow> addr \<Rightarrow> string \<Rightarrow> jsval" where
  "stored_option st this k = member st (member st (Obj this) ''_options'') k"





subsection \<open>The values of the worked examples\<close>

definition token0 :: string where
  "token0 = ''00000000000000000000000000000000''"

text \<open>
  The store after \<^verbatim>\<open>new MoodleWSClient('https://localhost', token0)\<close> in an empty
  store: the client is object 0, its options are object 1.
\<close>

definition client_store :: store where
  "client_store =
     [(ClientInstance,
        [(''_moodleUrl'', Str ''https://localhost/''), (''_token'', Str token0),
         (''_options'', Obj 1)]),
      (PlainObject,
        [(''acceptUntrustedTLSCert'', Bool False), (''dataFormat'', Str ''json''),
         (''timeout'', Num 5000)])]"

section \<open>Lemmas about the store and the validator\<close>


lemma map_of_set_prop: "map_of (set_prop ps k v) = (map_of ps)(k \<mapsto> v)"
  by (simp add: set_prop_def update_conv')

lemma get_prop_set_prop: "get_prop (set_prop ps k v) k' = (if k' = k then v else get_prop ps k')"
  by (simp add: get_prop_def map_of_set_prop)

lemma length_set_props: "length (set_props st a ps) = length st"
  by (simp add: set_props_def)

lemma length_assign: "length (assign st v k x) = length st"
  by (simp add: assign_def length_set_props split: jsval.splits)

lemma kind_of_assign: "kind_of (assign st v k x) b = kind_of st b"
  by (auto simp: assign_def kind_of_def set_props_def nth_list_update split: jsval.splits)

lemma props_of_assign:
  "props_of (assign st (Obj a) k x) b =
     (if b = a \<and> a < length st then set_prop (props_of st a) k x else props_of st b)"
  by (auto simp: assign_def props_of_def set_props_def nth_list_update)

lemma props_of_assign_other: "v \<noteq> Obj b \<Longrightarrow> props_of (assign st v k x) b = props_of st b"
  by (cases v) (auto simp: props_of_assign, simp_all add: assign_def)

lemma member_Obj:
  "member st (Obj a) k =
     (case map_of (props_of st a) k of
        Some x \<Rightarrow> x
      | None \<Rightarrow> if kind_of st a = Some ClientInstance \<and> k \<in> set prototype_methods then Method k else Undefined)"
  by (simp add: member_def)

lemma length_options_coerce: "length (fst (options_coerce E st v)) = length st"
  by (simp add: options_coerce_def Let_def length_assign)

lemma snd_options_coerce: "snd (options_coerce E st v) = v"
  by (simp add: options_coerce_def Let_def)

lemma kind_of_options_coerce: "kind_of (fst (options_coerce E st v)) b = kind_of st b"
  by (simp add: options_coerce_def Let_def kind_of_assign)

lemma props_of_options_coerce_other:
  "v \<noteq> Obj b \<Longrightarrow> props_of (fst (options_coerce E st v)) b = props_of st b"
  by (simp add: options_coerce_def Let_def props_of_assign_other)

lemma validate_moodleBaseUrl:
  "validate_param E st (param_moodleBaseUrl E) v =
     (st, case first_failure [presence, url E, format InvalidFormat re_trailing_slash] st (moodleBaseUrl_coerce v) of
            Some r \<Rightarrow> Inl (ValidationError ''moodleBaseUrl'' r)
          | None \<Rightarrow> Inr (moodleBaseUrl_coerce v))"
  by (simp add: validate_param_def param_moodleBaseUrl_def apply_default_def split: option.splits jsval.splits)

lemma validate_token:
  "validate_param E st param_token v =
     (st, case first_failure [presence, format InvalidToken re_token] st v of
            Some r \<Rightarrow> Inl (ValidationError ''token'' r)
          | None \<Rightarrow> Inr v)"
  by (simp add: validate_param_def param_token_def apply_default_def split: option.splits jsval.splits)

lemma validate_options:
  assumes "opt = (if v = Undefined then d else v)"
  shows "validate_param E st (param_options E d) v =
     (fst (options_coerce E st opt),
      case dictionary (options_mapConstraints E) (fst (options_coerce E st opt)) opt of
        Some r \<Rightarrow> Inl (ValidationError ''options'' r)
      | None \<Rightarrow> Inr opt)"
proof -
  have d: "apply_default E st (param_options E d) v = opt"
    unfolding assms by (cases v) (simp_all add: apply_default_def param_options_def)
  obtain st' w where c: "options_coerce E st opt = (st', w)"
    by (cases "options_coerce E st opt")
  have w: "w = opt"
    using snd_options_coerce [of E st opt] c by simp
  show ?thesis
    unfolding validate_param_def d Let_def
    using c w by (simp add: param_options_def split: option.splits)
qed

lemma cname_params:
  "cname (param_moodleBaseUrl E) = ''moodleBaseUrl''"
  "cname param_token = ''token''"
  "cname (param_options E d) = ''options''"
  by (simp_all add: param_moodleBaseUrl_def param_token_def param_options_def)

lemma first_failure_url:
  "first_failure [presence, url E, format InvalidFormat re_trailing_slash] st v = None
     \<longleftrightarrow> (\<exists>s. v = Str s \<and> url_valid E s \<and> re_trailing_slash s)"
  by (cases v) (auto simp: presence_def url_def format_def)

lemma first_failure_token:
  "first_failure [presence, format InvalidToken re_token] st v = None
     \<longleftrightarrow> (\<exists>s. v = Str s \<and> re_token s)"
  by (cases v) (auto simp: presence_def format_def)


lemma constructor_args:
  "constructor E st argv = constructor E st [arg argv 0, arg argv 1, arg argv 2]"
proof -
  have "assert_params E s [c1, c2, c3] argv [] =
        assert_params E s [c1, c2, c3] [arg argv 0, arg argv 1, arg argv 2] []" for s c1 c2 c3
  proof (cases argv)
    case Nil
    then show ?thesis by (simp add: arg_def)
  next
    case (Cons x xs)
    note c1 = this
    show ?thesis
    proof (cases xs)
      case Nil
      with c1 show ?thesis by (simp add: arg_def)
    next
      case (Cons y ys)
      with c1 show ?thesis by (cases ys) (simp_all add: arg_def)
    qed
  qed
  then show ?thesis
    by (simp add: constructor_def constructor_constraints_def)
qed

lemma constructor3_eq:
  assumes "opt = (if a2 = Undefined then Obj (Suc (length st)) else a2)"
    and "st2 = st @ [(ClientInstance, []), (PlainObject, [])]"
    and "st3 = fst (options_coerce E st2 opt)"
  shows "constructor E st [a0, a1, a2] =
    (case first_failure [presence, url E, format InvalidFormat re_trailing_slash] st2
            (moodleBaseUrl_coerce a0) of
          Some r \<Rightarrow> (st2, Inl (ValidationError ''moodleBaseUrl'' r))
        | None \<Rightarrow>
           (case first_failure [presence, format InvalidToken re_token] st2 a1 of
              Some r \<Rightarrow> (st2, Inl (ValidationError ''token'' r))
            | None \<Rightarrow>
               (case dictionary (options_mapConstraints E) st3 opt of
                  Some r \<Rightarrow> (st3, Inl (ValidationError ''options'' r))
                | None \<Rightarrow>
                   (assign (assign (assign st3 (Obj (length st)) ''_moodleUrl''
                        (moodleBaseUrl_coerce a0))
                       (Obj (length st)) ''_token'' a1) (Obj (length st)) ''_options'' opt,
                    Inr (Obj (length st))))))"
proof -
  have vo: "validate_param E st2 (param_options E (Obj (Suc (length st)))) a2 =
     (st3, case dictionary (options_mapConstraints E) st3 opt of
        Some r \<Rightarrow> Inl (ValidationError ''options'' r)
      | None \<Rightarrow> Inr opt)"
    using validate_options [OF assms(1), where st = st2 and E = E] assms(3) by simp
  show ?thesis
    unfolding constructor_def alloc_def constructor_constraints_def
    by (simp add: assms(2) [symmetric] validate_moodleBaseUrl validate_token vo
        get_prop_set_prop cname_params Let_def
        split: option.splits del: first_failure.simps)
qed

lemma constructor_Inr:
  assumes ok: "constructor E st argv = (st', Inr r)"
    and opt: "opt = (if arg argv 2 = Undefined then Obj (Suc (length st)) else arg argv 2)"
    and st2: "st2 = st @ [(ClientInstance, []), (PlainObject, [])]"
    and st3: "st3 = fst (options_coerce E st2 opt)"
  shows "\<exists>s t.
           moodleBaseUrl_coerce (arg argv 0) = Str s \<and> url_valid E s \<and> re_trailing_slash s \<and>
           arg argv 1 = Str t \<and> re_token t \<and>
           dictionary (options_mapConstraints E) st3 opt = None \<and>
           r = Obj (length st) \<and>
           st' = assign (assign (assign st3 (Obj (length st)) ''_moodleUrl'' (Str s))
                   (Obj (length st)) ''_token'' (Str t)) (Obj (length st)) ''_options'' opt"
proof -
  let ?u = "moodleBaseUrl_coerce (arg argv 0)"
  let ?t = "arg argv 1"
  note eq = constructor3_eq [OF opt st2 st3]
  from ok have ok3: "constructor E st [arg argv 0, ?t, arg argv 2] = (st', Inr r)"
    using constructor_args [of E st argv] by simp
  have u: "first_failure [presence, url E, format InvalidFormat re_trailing_slash] st2 ?u = None"
    using ok3 unfolding eq by (simp split: option.splits del: first_failure.simps)
  have t: "first_failure [presence, format InvalidToken re_token] st2 ?t = None"
    using ok3 u unfolding eq by (simp split: option.splits del: first_failure.simps)
  have d: "dictionary (options_mapConstraints E) st3 opt = None"
    using ok3 u t unfolding eq by (simp split: option.splits del: first_failure.simps)
  have res: "(st', Inr r) = (assign (assign (assign st3 (Obj (length st)) ''_moodleUrl'' ?u)
                   (Obj (length st)) ''_token'' ?t) (Obj (length st)) ''_options'' opt,
                 (Inr (Obj (length st)) :: error + jsval))"
    using ok3 u t d unfolding eq by (auto simp del: first_failure.simps)
  from u obtain s where s: "?u = Str s" "url_valid E s" "re_trailing_slash s"
    unfolding first_failure_url by blast
  from t obtain tk where tk: "?t = Str tk" "re_token tk"
    unfolding first_failure_token by blast
  from res have "r = Obj (length st)"
    and "st' = assign (assign (assign st3 (Obj (length st)) ''_moodleUrl'' ?u)
                   (Obj (length st)) ''_token'' ?t) (Obj (length st)) ''_options'' opt"
    by simp_all
  then show ?thesis
    using s tk d by simp
qed

section \<open>Lemmas about the constructor\<close>


lemma member_assign:
  "member (assign st (Obj a) k x) (Obj b) k' =
     (if b = a \<and> k' = k \<and> a < length st then x else member st (Obj b) k')"
  by (auto simp: member_Obj props_of_assign kind_of_assign map_of_set_prop split: option.splits)

lemma props_of_fresh: "props_of (st @ [(k1, []), (k2, [])]) b = props_of st b"
  by (auto simp: props_of_def nth_append less_Suc_eq)

lemma props_of_out: "length st \<le> a \<Longrightarrow> props_of st a = []"
  by (simp add: props_of_def)

lemma own_props_fresh: "own_props (st @ [(k1, []), (k2, [])]) v = own_props st v"
  by (simp add: own_props_def props_of_fresh split: jsval.splits)

lemma kind_of_fresh:
  "kind_of (st @ [(k1, []), (k2, [])]) b =
     (if b = length st then Some k1 else if b = Suc (length st) then Some k2 else kind_of st b)"
  by (auto simp: kind_of_def nth_append)

lemma member_fresh:
  "b < length st \<Longrightarrow> member (st @ [(k1, []), (k2, [])]) (Obj b) k = member st (Obj b) k"
  by (auto simp: member_Obj props_of_fresh kind_of_fresh split: option.splits)

lemma member_plain_key:
  "k \<notin> set prototype_methods \<Longrightarrow> member st (Obj a) k = get_prop (props_of st a) k"
  by (simp add: member_Obj get_prop_def split: option.splits)

lemma dictionary_None_kind:
  "dictionary mc st (Obj a) = None \<Longrightarrow> kind_of st a = Some PlainObject"
  by (simp add: dictionary_def isPlainObject_def split: if_splits)

lemma constructor_fields:
  assumes ok: "constructor E st argv = (st', Inr r)"
    and opt: "opt = (if arg argv 2 = Undefined then Obj (Suc (length st)) else arg argv 2)"
    and st2: "st2 = st @ [(ClientInstance, []), (PlainObject, [])]"
    and st3: "st3 = fst (options_coerce E st2 opt)"
  shows "r = Obj (length st)"
    and "member st' (Obj (length st)) ''_moodleUrl'' = moodleBaseUrl_coerce (arg argv 0)"
    and "member st' (Obj (length st)) ''_token'' = arg argv 1"
    and "member st' (Obj (length st)) ''_options'' = opt"
    and "b \<noteq> length st \<Longrightarrow> member st' (Obj b) k = member st3 (Obj b) k"
    and "b \<noteq> length st \<Longrightarrow> props_of st' b = props_of st3 b"
    and "kind_of st' b = kind_of st2 b"
    and "length st' = Suc (Suc (length st))"
    and "dictionary (options_mapConstraints E) st3 opt = None"
proof -
  from constructor_Inr [OF ok opt st2 st3] obtain s t where
    s: "moodleBaseUrl_coerce (arg argv 0) = Str s" and t: "arg argv 1 = Str t"
    and d: "dictionary (options_mapConstraints E) st3 opt = None"
    and r: "r = Obj (length st)"
    and st': "st' = assign (assign (assign st3 (Obj (length st)) ''_moodleUrl'' (Str s))
                   (Obj (length st)) ''_token'' (Str t)) (Obj (length st)) ''_options'' opt"
    by blast
  have len: "length st3 = Suc (Suc (length st))"
    by (simp add: st3 st2 length_options_coerce)
  show "r = Obj (length st)" by (rule r)
  show "member st' (Obj (length st)) ''_moodleUrl'' = moodleBaseUrl_coerce (arg argv 0)"
    by (simp add: st' member_assign length_assign len s)
  show "member st' (Obj (length st)) ''_token'' = arg argv 1"
    using t by (simp add: st' member_assign length_assign len)
  show "member st' (Obj (length st)) ''_options'' = opt"
    by (simp add: st' member_assign length_assign len)
  show "b \<noteq> length st \<Longrightarrow> member st' (Obj b) k = member st3 (Obj b) k"
    by (simp add: st' member_assign)
  show "b \<noteq> length st \<Longrightarrow> props_of st' b = props_of st3 b"
    by (simp add: st' props_of_assign)
  show "kind_of st' b = kind_of st2 b"
    by (simp add: st' st3 kind_of_assign kind_of_options_coerce)
  show "length st' = Suc (Suc (length st))"
    by (simp add: st' length_assign len)
  show "dictionary (options_mapConstraints E) st3 opt = None" by (rule d)
qed

section \<open>Lemmas about the coercion of the options\<close>


lemma own_props_assign: "v \<noteq> Obj a \<Longrightarrow> own_props (assign st (Obj a) k x) v = own_props st v"
  by (cases v) (simp_all add: own_props_def props_of_assign)

lemma isEmpty_cong: "own_props st v = own_props st' v \<Longrightarrow> isEmpty E st v = isEmpty E st' v"
  by (cases v) (simp_all add: own_props_def)

lemma timeoutMS_coerce_cong:
  "own_props st v = own_props st' v \<Longrightarrow> timeoutMS_coerce E st v = timeoutMS_coerce E st' v"
  by (cases v) (simp_all add: timeoutMS_coerce_def c_toNumber_def)

lemma options_coerce_Obj:
  assumes "x = (if isDefined (member st (Obj a) ''acceptUntrustedTLSCert'')
                then c_toBoolean E st (member st (Obj a) ''acceptUntrustedTLSCert'') else Bool False)"
    and "st1 = assign st (Obj a) ''acceptUntrustedTLSCert'' x"
    and "y = (if \<not> isEmpty E st1 (member st (Obj a) ''dataFormat'')
              then wsDataFormat_coerce E st1 (member st (Obj a) ''dataFormat'') else Str ''json'')"
    and "st2 = assign st1 (Obj a) ''dataFormat'' y"
    and "z = (if \<not> isEmpty E st2 (member st (Obj a) ''timeout'')
              then timeoutMS_coerce E st2 (member st (Obj a) ''timeout'') else Num 5000)"
  shows "fst (options_coerce E st (Obj a)) = assign st2 (Obj a) ''timeout'' z"
  by (simp add: options_coerce_def Let_def assms member_assign)

lemma options_coerce_members:
  assumes a: "a < length st"
    and x: "x = (if isDefined (member st (Obj a) ''acceptUntrustedTLSCert'')
                then c_toBoolean E st (member st (Obj a) ''acceptUntrustedTLSCert'') else Bool False)"
    and st1: "st1 = assign st (Obj a) ''acceptUntrustedTLSCert'' x"
    and y: "y = (if \<not> isEmpty E st1 (member st (Obj a) ''dataFormat'')
              then wsDataFormat_coerce E st1 (member st (Obj a) ''dataFormat'') else Str ''json'')"
    and st2: "st2 = assign st1 (Obj a) ''dataFormat'' y"
    and z: "z = (if \<not> isEmpty E st2 (member st (Obj a) ''timeout'')
              then timeoutMS_coerce E st2 (member st (Obj a) ''timeout'') else Num 5000)"
    and st3: "st3 = fst (options_coerce E st (Obj a))"
  shows "member st3 (Obj a) ''acceptUntrustedTLSCert'' = x"
    and "member st3 (Obj a) ''dataFormat'' = y"
    and "member st3 (Obj a) ''timeout'' = z"
    and "k \<notin> {''acceptUntrustedTLSCert'', ''dataFormat'', ''timeout''} \<Longrightarrow>
           member st3 (Obj a) k = member st (Obj a) k"
  unfolding st3 options_coerce_Obj [OF x st1 y st2 z]
  using a by (simp_all add: member_assign st2 st1 length_assign)

lemma options_coerce_defaults:
  assumes a: "a < length st"
  shows "member st (Obj a) ''acceptUntrustedTLSCert'' = Undefined \<Longrightarrow>
           member (fst (options_coerce E st (Obj a))) (Obj a) ''acceptUntrustedTLSCert'' = Bool False"
    and "member st (Obj a) ''dataFormat'' = Undefined \<Longrightarrow>
           member (fst (options_coerce E st (Obj a))) (Obj a) ''dataFormat'' = Str ''json''"
    and "member st (Obj a) ''timeout'' = Undefined \<Longrightarrow>
           member (fst (options_coerce E st (Obj a))) (Obj a) ''timeout'' = Num 5000"
  using options_coerce_members [OF a refl refl refl refl refl refl, where E = E]
  by simp_all

section \<open>Evaluation of the worked examples\<close>

lemma constructor_example:
  "constructor example_env [] [Str ''https://localhost'', Str token0] = (client_store, Inr (Obj 0))"
  by code_simp

section \<open>The base URL\<close>



section \<open>The accessors\<close>

text \<open>
  C8. \<open>apiUrl\<close> is \<open>moodleUrl\<close> followed by the constant path, on every instance in
  every store; on a client that the constructor has just returned, \<open>moodleUrl\<close> is a
  string \<open>s\<close> and \<open>apiUrl\<close> is the string \<open>s\<close> followed by
  \<^verbatim>\<open>webservice/rest/server.php\<close>. Both accessors are total functions of the store
  and return a value, never a failure.
\<close>

theorem apiUrl_is_moodleUrl_plus_path:
  "apiUrl E st this = js_concat E st (moodleUrl st this) MOODLE_API_PATH \<and>
   (constructor E st0 argv = (st, Inr (Obj this)) \<longrightarrow>
      (\<exists>s. moodleUrl st this = Str s \<and>
           apiUrl E st this = Str (s @ ''webservice/rest/server.php'')))"
proof -
  have g: "apiUrl E st this = js_concat E st (moodleUrl st this) MOODLE_API_PATH"
    by (simp add: apiUrl_def moodleUrl_def)
  have "\<exists>s. moodleUrl st this = Str s \<and>
           apiUrl E st this = Str (s @ ''webservice/rest/server.php'')"
    if ok: "constructor E st0 argv = (st, Inr (Obj this))"
  proof -
    from constructor_fields(1,2) [OF ok refl refl refl]
    have c: "this = length st0"
      and m: "member st (Obj (length st0)) ''_moodleUrl'' = moodleBaseUrl_coerce (arg argv 0)"
      by simp_all
    from constructor_Inr [OF ok refl refl refl]
    obtain s where s: "moodleBaseUrl_coerce (arg argv 0) = Str s"
      by blast
    show ?thesis
      using m s unfolding c
      by (simp add: apiUrl_def moodleUrl_def js_concat_def MOODLE_API_PATH_def)
  qed
  with g show ?thesis by blast
qed

theorem apiUrl_is_moodleUrl_plus_path_witness:
  "constructor example_env [] [Str ''https://localhost'', Str token0] = (client_store, Inr (Obj 0))
   \<and> apiUrl example_env client_store 0 = Str ''https://localhost/webservice/rest/server.php''"
proof -
  note h = constructor_example
  have m: "moodleUrl client_store 0 = Str ''https://localhost/''"
    by code_simp
  from apiUrl_is_moodleUrl_plus_path [where E = example_env and st = client_store
      and this = 0 and ?st0.0 = "[]" and argv = "[Str ''https://localhost'', Str token0]"] h m
  show ?thesis by auto
qed

section \<open>The defaults of the options\<close>

text \<open>
  C7. In every successful construction, when the options argument is omitted the three
  stored options are \<open>false\<close>, \<open>json\<close> and \<open>5000\<close>; when an options object is given
  and one of the three keys is omitted in it, the stored option under that key is its
  default.
\<close>

theorem constructor_option_defaults:
  assumes ok: "constructor E st argv = (st', Inr (Obj c))"
  shows "(arg argv 2 = Undefined \<longrightarrow>
            stored_option st' c ''acceptUntrustedTLSCert'' = Bool False \<and>
            stored_option st' c ''dataFormat'' = Str ''json'' \<and>
            stored_option st' c ''timeout'' = Num 5000) \<and>
         (\<forall>a. arg argv 2 = Obj a \<longrightarrow>
            (member st (Obj a) ''acceptUntrustedTLSCert'' = Undefined \<longrightarrow>
               stored_option st' c ''acceptUntrustedTLSCert'' = Bool False) \<and>
            (member st (Obj a) ''dataFormat'' = Undefined \<longrightarrow>
               stored_option st' c ''dataFormat'' = Str ''json'') \<and>
            (member st (Obj a) ''timeout'' = Undefined \<longrightarrow>
               stored_option st' c ''timeout'' = Num 5000))"
proof -
  let ?st2 = "st @ [(ClientInstance, []), (PlainObject, [])]"
  have key: "stored_option st' c k = member (fst (options_coerce E ?st2 (Obj a))) (Obj a) k
             \<and> a < length ?st2"
    if opt: "(if arg argv 2 = Undefined then Obj (Suc (length st)) else arg argv 2) = Obj a"
    for a k
  proof -
    note f = constructor_fields [OF ok opt [symmetric] refl refl]
    from f(9) have k3: "kind_of (fst (options_coerce E ?st2 (Obj a))) a = Some PlainObject"
      by (rule dictionary_None_kind)
    then have k2: "kind_of ?st2 a = Some PlainObject"
      by (simp add: kind_of_options_coerce)
    then have ne: "a \<noteq> length st" and lt: "a < length ?st2"
      by (auto simp: kind_of_fresh kind_of_def split: if_splits)
    from f(1) have c: "c = length st" by simp
    show ?thesis
      using f(4) f(5) [OF ne] lt by (simp add: stored_option_def c)
  qed
  have undef: "member ?st2 (Obj a) k = Undefined"
    if "member st (Obj a) k = Undefined" "k \<notin> set prototype_methods" for a k
    using that by (simp add: member_plain_key props_of_fresh)
  have fresh: "member ?st2 (Obj (Suc (length st))) k = Undefined" for k
    by (simp add: member_Obj props_of_fresh kind_of_fresh props_of_out)
  show ?thesis
  proof (intro conjI impI allI)
    assume u: "arg argv 2 = Undefined"
    with key [of "Suc (length st)"]
    have k: "\<And>k. stored_option st' c k =
              member (fst (options_coerce E ?st2 (Obj (Suc (length st))))) (Obj (Suc (length st))) k"
      and lt: "Suc (length st) < length ?st2"
      by simp_all
    show "stored_option st' c ''acceptUntrustedTLSCert'' = Bool False"
      unfolding k by (rule options_coerce_defaults(1) [OF lt fresh])
    show "stored_option st' c ''dataFormat'' = Str ''json''"
      unfolding k by (rule options_coerce_defaults(2) [OF lt fresh])
    show "stored_option st' c ''timeout'' = Num 5000"
      unfolding k by (rule options_coerce_defaults(3) [OF lt fresh])
  next
    fix a assume o: "arg argv 2 = Obj a"
    with key [of a]
    have k: "\<And>k. stored_option st' c k = member (fst (options_coerce E ?st2 (Obj a))) (Obj a) k"
      and lt: "a < length ?st2"
      by simp_all
    { assume "member st (Obj a) ''acceptUntrustedTLSCert'' = Undefined"
      then have "member ?st2 (Obj a) ''acceptUntrustedTLSCert'' = Undefined"
        by (rule undef) (simp add: prototype_methods_def)
      then show "stored_option st' c ''acceptUntrustedTLSCert'' = Bool False"
        unfolding k by (rule options_coerce_defaults(1) [OF lt]) }
    { assume "member st (Obj a) ''dataFormat'' = Undefined"
      then have "member ?st2 (Obj a) ''dataFormat'' = Undefined"
        by (rule undef) (simp add: prototype_methods_def)
      then show "stored_option st' c ''dataFormat'' = Str ''json''"
        unfolding k by (rule options_coerce_defaults(2) [OF lt]) }
    { assume "member st (Obj a) ''timeout'' = Undefined"
      then have "member ?st2 (Obj a) ''timeout'' = Undefined"
        by (rule undef) (simp add: prototype_methods_def)
      then show "stored_option st' c ''timeout'' = Num 5000"
        unfolding k by (rule options_coerce_defaults(3) [OF lt]) }
  qed
qed


theorem constructor_option_defaults_witness:
  "constructor example_env [] [Str ''https://localhost'', Str token0] = (client_store, Inr (Obj 0))
   \<and> arg [Str ''https://localhost'', Str token0] 2 = Undefined
   \<and> stored_option client_store 0 ''acceptUntrustedTLSCert'' = Bool False
   \<and> stored_option client_store 0 ''dataFormat'' = Str ''json''
   \<and> stored_option client_store 0 ''timeout'' = Num 5000
   \<and> snd (constructor example_env [(PlainObject, [(''dataFormat'', Str ''XML'')])]
             [Str ''https://localhost/'', Str token0, Obj 0]) = Inr (Obj 1)
   \<and> member [(PlainObject, [(''dataFormat'', Str ''XML'')])] (Obj 0) ''timeout'' = Undefined
   \<and> stored_option (fst (constructor example_env [(PlainObject, [(''dataFormat'', Str ''XML'')])]
             [Str ''https://localhost/'', Str token0, Obj 0])) 1 ''timeout'' = Num 5000"
proof -
  note h = constructor_example
  have a: "arg [Str ''https://localhost'', Str token0] 2 = Undefined"
    by (simp add: arg_def)
  let ?S = "[(PlainObject, [(''dataFormat'', Str ''XML'')])]"
  let ?argv = "[Str ''https://localhost/'', Str token0, Obj 0]"
  have s: "snd (constructor example_env ?S ?argv) = Inr (Obj 1)"
    by code_simp
  then have h2: "constructor example_env ?S ?argv = (fst (constructor example_env ?S ?argv), Inr (Obj 1))"
    by (metis prod.collapse)
  have a2: "arg ?argv 2 = Obj 0"
    by (simp add: arg_def)
  have m: "member ?S (Obj 0) ''timeout'' = Undefined"
    by code_simp
  from constructor_option_defaults [OF h] a
  have 1: "stored_option client_store 0 ''acceptUntrustedTLSCert'' = Bool False \<and>
           stored_option client_store 0 ''dataFormat'' = Str ''json'' \<and>
           stored_option client_store 0 ''timeout'' = Num 5000"
    by blast
  from constructor_option_defaults [OF h2] a2 m
  have 2: "stored_option (fst (constructor example_env ?S ?argv)) 1 ''timeout'' = Num 5000"
    by blast
  from h a 1 s m 2 show ?thesis by blast
qed

section \<open>The constraints of the HTTP method and of the function name\<close>

lemma re_http_method_GET: "re_http_method ''GET''"
  by (simp add: re_http_method_def)

lemma apply_default_httpMethod:
  "apply_default E st (required n (httpMethod E)) v = (if isEmpty E st v then Str ''GET'' else v)"
  by (cases v) (simp_all add: apply_default_def required_def httpMethod_def)

lemma validate_httpMethod_empty:
  assumes "isEmpty E st v" and "toUpperCase E ''GET'' = ''GET''"
  shows "validate_param E st (required ''method'' (httpMethod E)) v = (st, Inr (Str ''GET''))"
  unfolding validate_param_def apply_default_httpMethod
  using assms
  by (simp add: required_def httpMethod_def httpMethod_coerce_def c_toString_def presence_def
      hasTypeof_def typeof_def format_def re_http_method_GET)

lemma validate_httpMethod_Str:
  assumes "\<not> EMPTY_STRING_REGEXP E s"
  shows "validate_param E st (required ''method'' (httpMethod E)) (Str s) =
     (st, if re_http_method (toUpperCase E s) then Inr (Str (toUpperCase E s))
          else Inl (ValidationError ''method'' InvalidFormat))"
  unfolding validate_param_def apply_default_httpMethod
  using assms
  by (simp add: required_def httpMethod_def httpMethod_coerce_def c_toString_def presence_def
      hasTypeof_def typeof_def format_def)

lemma validate_wsFunctionName_Str:
  "validate_param E st (required ''wsFunctionName'' (wsFunctionName E)) (Str s) =
     (st, if re_function_name (toLowerCase E s) then Inr (Str (toLowerCase E s))
          else Inl (ValidationError ''wsFunctionName'' InvalidFormat))"
  by (simp add: validate_param_def required_def wsFunctionName_def apply_default_def
      wsFunctionName_coerce_def c_toString_def presence_def hasTypeof_def typeof_def format_def)

lemma re_function_name_core_fn: "re_function_name ''core_fn''"
  by (simp add: re_function_name_def lower_letters_def)

lemma fst_validate_httpMethod: "fst (validate_param E st (required n (httpMethod E)) v) = st"
  by (simp add: validate_param_def required_def httpMethod_def Let_def split: option.splits)

lemma fst_validate_wsFunctionName: "fst (validate_param E st (required n (wsFunctionName E)) v) = st"
  by (simp add: validate_param_def required_def wsFunctionName_def Let_def split: option.splits)

lemma validate_dictionary_nodefault:
  "validate_param E st \<lparr>cname = n, defaultWhenUndefined = None, defaultWhenEmpty = None,
        coerce = None, validators = [dictionary []]\<rparr> v =
     (st, case dictionary [] st v of
            Some r \<Rightarrow> Inl (ValidationError n r)
          | None \<Rightarrow> Inr v)"
  by (cases v) (simp_all add: validate_param_def apply_default_def split: option.splits)

lemma validate_dictionary_default:
  "validate_param E st \<lparr>cname = n, defaultWhenUndefined = Some d, defaultWhenEmpty = None,
        coerce = None, validators = [dictionary []]\<rparr> v =
     (st, case dictionary [] st (if v = Undefined then d else v) of
            Some r \<Rightarrow> Inl (ValidationError n r)
          | None \<Rightarrow> Inr (if v = Undefined then d else v))"
  by (cases v) (simp_all add: validate_param_def apply_default_def split: option.splits)

lemma cname_required: "cname (required n c) = n"
  by (simp add: required_def)

lemma submit_args4_eq:
  assumes st1: "st1 = st @ [(PlainObject, [])]"
    and w: "w = (if a3 = Undefined then Obj (length st) else a3)"
  shows "submit_args E st [a0, a1, a2, a3] =
    (case snd (validate_param E st1 (required ''method'' (httpMethod E)) a0) of
       Inl e \<Rightarrow> (st1, Inl e)
     | Inr m \<Rightarrow>
        (case snd (validate_param E st1 (required ''wsFunctionName'' (wsFunctionName E)) a1) of
           Inl e \<Rightarrow> (st1, Inl e)
         | Inr f \<Rightarrow>
            (case dictionary [] st1 a2 of
               Some r \<Rightarrow> (st1, Inl (ValidationError ''wsParameters'' r))
             | None \<Rightarrow>
                (case dictionary [] st1 w of
                   Some r \<Rightarrow> (st1, Inl (ValidationError ''wsParameters'' r))
                 | None \<Rightarrow>
                    (st1, Inr [(''method'', m), (''wsFunctionName'', f), (''wsParameters'', w)])))))"
proof -
  obtain r0 where r0: "validate_param E st1 (required ''method'' (httpMethod E)) a0 = (st1, r0)"
    using fst_validate_httpMethod [of E st1 "''method''" a0]
    by (cases "validate_param E st1 (required ''method'' (httpMethod E)) a0") simp
  obtain r1 where r1: "validate_param E st1 (required ''wsFunctionName'' (wsFunctionName E)) a1 = (st1, r1)"
    using fst_validate_wsFunctionName [of E st1 "''wsFunctionName''" a1]
    by (cases "validate_param E st1 (required ''wsFunctionName'' (wsFunctionName E)) a1") simp
  show ?thesis
    unfolding submit_args_def alloc_def submit_constraints_def
    by (simp add: st1 [symmetric] w r0 r1 validate_dictionary_nodefault
        validate_dictionary_default cname_required set_prop_def
        split: sum.splits option.splits)
qed

lemma submit_args_argv:
  "submit_args E st argv = submit_args E st [arg argv 0, arg argv 1, arg argv 2, arg argv 3]"
proof -
  have "assert_params E' s [c1, c2, c3, c4] argv [] =
        assert_params E' s [c1, c2, c3, c4] [arg argv 0, arg argv 1, arg argv 2, arg argv 3] []"
    for E' s c1 c2 c3 c4
  proof (cases argv)
    case Nil
    then show ?thesis by (simp add: arg_def)
  next
    case (Cons x xs)
    note c1 = this
    show ?thesis
    proof (cases xs)
      case Nil
      with c1 show ?thesis by (simp add: arg_def)
    next
      case (Cons y ys)
      note c2 = this
      show ?thesis
      proof (cases ys)
        case Nil
        with c1 c2 show ?thesis by (simp add: arg_def)
      next
        case (Cons z zs)
        with c1 c2 show ?thesis by (cases zs) (simp_all add: arg_def)
      qed
    qed
  qed
  then show ?thesis
    by (simp add: submit_args_def submit_constraints_def alloc_def del: assert_params.simps)
qed

lemma submit_args_scenario:
  assumes "toUpperCase E ''get'' = ''GET''" and "toLowerCase E ''CORE_Fn'' = ''core_fn''"
    and "\<not> EMPTY_STRING_REGEXP E ''get''"
  shows "submit_args E [(PlainObject, [])] [Str ''get'', Str ''CORE_Fn'', Obj 0] =
     ([(PlainObject, []), (PlainObject, [])],
      Inr [(''method'', Str ''GET''), (''wsFunctionName'', Str ''core_fn''), (''wsParameters'', Obj 1)])"
proof -
  have "submit_args E [(PlainObject, [])] [Str ''get'', Str ''CORE_Fn'', Obj 0] =
        submit_args E [(PlainObject, [])] [Str ''get'', Str ''CORE_Fn'', Obj 0, Undefined]"
    using submit_args_argv [of E "[(PlainObject, [])]" "[Str ''get'', Str ''CORE_Fn'', Obj 0]"]
    by (simp add: arg_def)
  also have "\<dots> = ([(PlainObject, []), (PlainObject, [])],
      Inr [(''method'', Str ''GET''), (''wsFunctionName'', Str ''core_fn''), (''wsParameters'', Obj 1)])"
    unfolding submit_args4_eq [OF refl refl]
    by (simp add: validate_httpMethod_Str [OF assms(3)] validate_wsFunctionName_Str assms(1,2)
        re_function_name_core_fn re_http_method_GET
        dictionary_def isPlainObject_def kind_of_def)
  finally show ?thesis .
qed

lemma ascii_toUpperCase_get: "ascii_toUpperCase ''get'' = ''GET''"
  by (simp add: ascii_toUpperCase_def lower_letters_def upper_letters_def)

lemma ascii_toUpperCase_post: "ascii_toUpperCase ''post'' = ''POST''"
  by (simp add: ascii_toUpperCase_def lower_letters_def upper_letters_def)

lemma ascii_toUpperCase_GET: "ascii_toUpperCase ''GET'' = ''GET''"
  by (simp add: ascii_toUpperCase_def lower_letters_def upper_letters_def)

lemma ascii_toLowerCase_CORE_Fn: "ascii_toLowerCase ''CORE_Fn'' = ''core_fn''"
  by (simp add: ascii_toLowerCase_def lower_letters_def upper_letters_def)

lemma ascii_toLowerCase_Core_User: "ascii_toLowerCase ''Core_User'' = ''core_user''"
  by (simp add: ascii_toLowerCase_def lower_letters_def upper_letters_def)

text \<open>
  C9. In \<^verbatim>\<open>submit('get', 'CORE_Fn', {})\<close> the validated method is \<open>GET\<close> and the
  validated function name is \<open>core_fn\<close>, given what the string functions of JavaScript
  do to the two arguments. In general the constraint of the method replaces an empty
  argument by \<open>GET\<close>, turns a string that is not empty into upper case and accepts it
  exactly when the result is one of \<open>GET\<close>, \<open>POST\<close>, \<open>PUT\<close>; the constraint of the
  function name turns a string into lower case and accepts it exactly when the result is
  a non-empty string of the characters \<open>a\<close> to \<open>z\<close> and \<open>_\<close>. The upper and the
  lower case of a string are those of \<^verbatim>\<open>String.prototype\<close>, whatever the string.
\<close>

theorem httpMethod_and_wsFunctionName_coercion:
  "(toUpperCase E ''get'' = ''GET'' \<and> toLowerCase E ''CORE_Fn'' = ''core_fn'' \<and>
    \<not> EMPTY_STRING_REGEXP E ''get'' \<longrightarrow>
      (\<exists>st' args.
         submit_args E [(PlainObject, [])] [Str ''get'', Str ''CORE_Fn'', Obj 0] = (st', Inr args) \<and>
         get_prop args ''method'' = Str ''GET'' \<and>
         get_prop args ''wsFunctionName'' = Str ''core_fn'')) \<and>
   (\<not> isEmpty E st (Str s) \<longrightarrow>
      validate_param E st (required ''method'' (httpMethod E)) (Str s) =
        (st, if toUpperCase E s = ''GET'' \<or> toUpperCase E s = ''POST'' \<or> toUpperCase E s = ''PUT''
             then Inr (Str (toUpperCase E s))
             else Inl (ValidationError ''method'' InvalidFormat))) \<and>
   (isEmpty E st v \<and> toUpperCase E ''GET'' = ''GET'' \<longrightarrow>
      validate_param E st (required ''method'' (httpMethod E)) v = (st, Inr (Str ''GET''))) \<and>
   validate_param E st (required ''wsFunctionName'' (wsFunctionName E)) (Str f) =
     (st, if toLowerCase E f \<noteq> [] \<and>
             (\<forall>c \<in> set (toLowerCase E f). c \<in> set ''abcdefghijklmnopqrstuvwxyz_'')
          then Inr (Str (toLowerCase E f))
          else Inl (ValidationError ''wsFunctionName'' InvalidFormat))"
proof (intro conjI impI)
  assume "toUpperCase E ''get'' = ''GET'' \<and> toLowerCase E ''CORE_Fn'' = ''core_fn'' \<and>
    \<not> EMPTY_STRING_REGEXP E ''get''"
  then show "\<exists>st' args.
      submit_args E [(PlainObject, [])] [Str ''get'', Str ''CORE_Fn'', Obj 0] = (st', Inr args) \<and>
      get_prop args ''method'' = Str ''GET'' \<and> get_prop args ''wsFunctionName'' = Str ''core_fn''"
    by (simp add: submit_args_scenario get_prop_def)
next
  assume "\<not> isEmpty E st (Str s)"
  then have "\<not> EMPTY_STRING_REGEXP E s" by simp
  then show "validate_param E st (required ''method'' (httpMethod E)) (Str s) =
     (st, if toUpperCase E s = ''GET'' \<or> toUpperCase E s = ''POST'' \<or> toUpperCase E s = ''PUT''
          then Inr (Str (toUpperCase E s))
          else Inl (ValidationError ''method'' InvalidFormat))"
    by (simp add: validate_httpMethod_Str re_http_method_def)
next
  assume "isEmpty E st v \<and> toUpperCase E ''GET'' = ''GET''"
  then show "validate_param E st (required ''method'' (httpMethod E)) v = (st, Inr (Str ''GET''))"
    by (simp add: validate_httpMethod_empty)
next
  show "validate_param E st (required ''wsFunctionName'' (wsFunctionName E)) (Str f) =
     (st, if toLowerCase E f \<noteq> [] \<and>
             (\<forall>c \<in> set (toLowerCase E f). c \<in> set ''abcdefghijklmnopqrstuvwxyz_'')
          then Inr (Str (toLowerCase E f))
          else Inl (ValidationError ''wsFunctionName'' InvalidFormat))"
    unfolding validate_wsFunctionName_Str re_function_name_def lower_letters_def
    by (simp add: list_all_iff)
qed

theorem httpMethod_and_wsFunctionName_coercion_witness:
  "toUpperCase example_env ''get'' = ''GET'' \<and> toLowerCase example_env ''CORE_Fn'' = ''core_fn'' \<and>
   \<not> EMPTY_STRING_REGEXP example_env ''get'' \<and>
   (\<exists>st' args.
      submit_args example_env [(PlainObject, [])] [Str ''get'', Str ''CORE_Fn'', Obj 0]
        = (st', Inr args) \<and>
      get_prop args ''method'' = Str ''GET'' \<and> get_prop args ''wsFunctionName'' = Str ''core_fn'') \<and>
   \<not> isEmpty example_env [] (Str ''post'') \<and>
   validate_param example_env [] (required ''method'' (httpMethod example_env)) (Str ''post'')
     = ([], Inr (Str ''POST'')) \<and>
   isEmpty example_env [] Undefined \<and> toUpperCase example_env ''GET'' = ''GET'' \<and>
   validate_param example_env [] (required ''method'' (httpMethod example_env)) Undefined
     = ([], Inr (Str ''GET'')) \<and>
   isEmpty example_env [] (Str []) \<and>
   validate_param example_env [] (required ''method'' (httpMethod example_env)) (Str [])
     = ([], Inr (Str ''GET'')) \<and>
   validate_param example_env [] (required ''wsFunctionName'' (wsFunctionName example_env))
       (Str ''Core_User'')
     = ([], Inr (Str ''core_user''))"
proof -
  have g: "toUpperCase example_env ''get'' = ''GET''"
    by (simp add: example_env_def ascii_toUpperCase_get)
  have c: "toLowerCase example_env ''CORE_Fn'' = ''core_fn''"
    by (simp add: example_env_def ascii_toLowerCase_CORE_Fn)
  have b: "\<not> EMPTY_STRING_REGEXP example_env ''get''"
    by (simp add: example_env_def ascii_blank_def ascii_space_def)
  have u: "toUpperCase example_env ''post'' = ''POST''"
    by (simp add: example_env_def ascii_toUpperCase_post)
  have G: "toUpperCase example_env ''GET'' = ''GET''"
    by (simp add: example_env_def ascii_toUpperCase_GET)
  have l: "toLowerCase example_env ''Core_User'' = ''core_user''"
    by (simp add: example_env_def ascii_toLowerCase_Core_User)
  have p: "\<not> isEmpty example_env [] (Str ''post'')"
    by (simp add: example_env_def ascii_blank_def ascii_space_def)
  have e: "isEmpty example_env [] Undefined" by simp
  note T = httpMethod_and_wsFunctionName_coercion [of example_env "[]" "''post''" Undefined "''Core_User''"]
  from T g c b have 1: "\<exists>st' args.
      submit_args example_env [(PlainObject, [])] [Str ''get'', Str ''CORE_Fn'', Obj 0]
        = (st', Inr args) \<and>
      get_prop args ''method'' = Str ''GET'' \<and> get_prop args ''wsFunctionName'' = Str ''core_fn''"
    by blast
  from T p have 2: "validate_param example_env [] (required ''method'' (httpMethod example_env))
      (Str ''post'') = ([], Inr (Str ''POST''))"
    unfolding u by simp
  from T e G have 3: "validate_param example_env [] (required ''method'' (httpMethod example_env))
      Undefined = ([], Inr (Str ''GET''))"
    by blast
  from T have 4: "validate_param example_env [] (required ''wsFunctionName''
      (wsFunctionName example_env)) (Str ''Core_User'') = ([], Inr (Str ''core_user''))"
    unfolding l by simp
  have e0: "isEmpty example_env [] (Str [])"
    by (simp add: example_env_def ascii_blank_def)
  from httpMethod_and_wsFunctionName_coercion [of example_env "[]" "''post''" "Str []" "''Core_User''"]
    e0 G
  have 5: "validate_param example_env [] (required ''method'' (httpMethod example_env))
      (Str []) = ([], Inr (Str ''GET''))"
    by blast
  show ?thesis
    by (intro conjI; (rule g c b 1 p 2 e G 3 e0 5 4))
qed

section \<open>What the code does where it departs from its documentation\<close>

text \<open>
  C3. The pattern of the token is \<^verbatim>\<open>[a-z0-9]{32}\<close>, while its message and the type
  \<^verbatim>\<open>MoodleToken\<close> ask for 32 hexadecimal characters. A token of 32 letters \<open>z\<close> is
  not hexadecimal, and the constructor accepts it and stores it; a token with capitals
  is rejected with \<open>InvalidToken\<close>.
\<close>

theorem constructor_accepts_non_hex_token:
  "snd (constructor example_env [] [Str ''https://localhost/'', Str ''zzzzzzzzzzzzzzzzzzzzzzzzzzzzzzzz''])
     = Inr (Obj 0) \<and>
   member (fst (constructor example_env [] [Str ''https://localhost/'', Str ''zzzzzzzzzzzzzzzzzzzzzzzzzzzzzzzz'']))
     (Obj 0) ''_token'' = Str ''zzzzzzzzzzzzzzzzzzzzzzzzzzzzzzzz'' \<and>
   snd (constructor example_env [] [Str ''https://localhost/'', Str ''TOKEN-with-caps''])
     = Inl (ValidationError ''token'' InvalidToken)"
  by code_simp

text \<open>
  C2. \<^verbatim>\<open>submit('get', 'core_fn', {})\<close> on the client of the example, with \<^verbatim>\<open>{}\<close>
  as object 2. The local \<^verbatim>\<open>reqOpts\<close> holds the coerced method, the query, the TLS flag
  and the timeout, but its \<open>uri\<close> is the accessor \<^verbatim>\<open>this.apiUrl\<close> itself, not the
  string that calling it gives, and the call returns \<^verbatim>\<open>undefined\<close>.
\<close>

theorem submit_returns_undefined:
  "snd (submit_reqOpts example_env (client_store @ [(PlainObject, [])]) 0
          [Str ''get'', Str ''core_fn'', Obj 2])
     = Inr \<lparr>uri = Method ''apiUrl'', http_method = Str ''GET'',
            qs = [(''wstoken'', Str token0), (''wsfunction'', Str ''core_fn''),
                  (''moodlewsrestformat'', Str ''json'')],
            strictSSL = Bool True, timeout = Num 5000\<rparr> \<and>
   apiUrl example_env (client_store @ [(PlainObject, [])]) 0
     = Str ''https://localhost/webservice/rest/server.php'' \<and>
   snd (submit example_env (client_store @ [(PlainObject, [])]) 0
          [Str ''get'', Str ''core_fn'', Obj 2])
     = Inr Undefined"
  by code_simp

text \<open>
  C4. \<^verbatim>\<open>registerShortcut('getUsers', 'get', 'core_user_get_users')\<close> on the client of
  the example returns the client and stores the bound call under \<^verbatim>\<open>getUsers\<close>;
  \<^verbatim>\<open>getUsers({courseid: 5})\<close>, with the dictionary as object 2, then returns
  \<^verbatim>\<open>undefined\<close>, as every call of \<^verbatim>\<open>submit\<close> does.
\<close>

theorem shortcut_call_returns_undefined:
  "snd (registerShortcut example_env (client_store @ [(PlainObject, [(''courseid'', Num 5)])]) 0
          [Str ''getUsers'', Str ''get'', Str ''core_user_get_users''])
     = Inr (Obj 0) \<and>
   member (fst (registerShortcut example_env (client_store @ [(PlainObject, [(''courseid'', Num 5)])]) 0
          [Str ''getUsers'', Str ''get'', Str ''core_user_get_users''])) (Obj 0) ''getUsers''
     = BoundSubmit 0 [Str ''GET'', Str ''core_user_get_users''] \<and>
   snd (invoke example_env
          (fst (registerShortcut example_env (client_store @ [(PlainObject, [(''courseid'', Num 5)])]) 0
             [Str ''getUsers'', Str ''get'', Str ''core_user_get_users'']))
          0 ''getUsers'' [Obj 2])
     = Inr Undefined"
  by code_simp

section \<open>The query of a request\<close>

text \<open>
  C1. \<^verbatim>\<open>submit\<close> declares the parameter \<^verbatim>\<open>wsParameters\<close> twice, for its third and
  for its fourth argument, and takes the dictionary from the bag of the validated
  arguments, which holds the later of the two. In the call
  \<^verbatim>\<open>submit('get', 'core_fn', {moodlewsrestformat: 'xml', courseid: 5, wstoken: 'x'})\<close>
  on the client of the example, with the dictionary as object 2, the fourth argument is
  missing and its default \<^verbatim>\<open>{}\<close> is the \<^verbatim>\<open>wsParameters\<close> of the bag: the query of
  \<^verbatim>\<open>reqOpts\<close> is the three entries of the client and the call, the data format
  stays \<open>json\<close> and no entry of the dictionary reaches it. The same dictionary passed
  as fourth argument, after an empty one (object 3), is copied into the query whole,
  its \<^verbatim>\<open>wstoken\<close> in place of the token of the client.
\<close>

theorem submit_drops_wsParameters_dictionary:
  "snd (submit_reqOpts example_env
          (client_store @ [(PlainObject, [(''moodlewsrestformat'', Str ''xml''),
                                          (''courseid'', Num 5), (''wstoken'', Str ''x'')])]) 0
          [Str ''get'', Str ''core_fn'', Obj 2])
     = Inr \<lparr>uri = Method ''apiUrl'', http_method = Str ''GET'',
            qs = [(''wstoken'', Str token0), (''wsfunction'', Str ''core_fn''),
                  (''moodlewsrestformat'', Str ''json'')],
            strictSSL = Bool True, timeout = Num 5000\<rparr> \<and>
   snd (submit_reqOpts example_env
          (client_store @ [(PlainObject, [(''moodlewsrestformat'', Str ''xml''),
                                          (''courseid'', Num 5), (''wstoken'', Str ''x'')]),
                           (PlainObject, [])]) 0
          [Str ''get'', Str ''core_fn'', Obj 3, Obj 2])
     = Inr \<lparr>uri = Method ''apiUrl'', http_method = Str ''GET'',
            qs = [(''wstoken'', Str ''x''), (''wsfunction'', Str ''core_fn''),
                  (''moodlewsrestformat'', Str ''xml''), (''courseid'', Num 5)],
            strictSSL = Bool True, timeout = Num 5000\<rparr>"
  by code_simp

section \<open>The values that the constructor writes into the options\<close>

lemma wsDataFormat_coerce_cong:
  "own_props st v = own_props st' v \<Longrightarrow> wsDataFormat_coerce E st v = wsDataFormat_coerce E st' v"
  by (cases v) (simp_all add: wsDataFormat_coerce_def c_toString_def)

lemma c_toBoolean_cong:
  "own_props st v = own_props st' v \<Longrightarrow> c_toBoolean E st v = c_toBoolean E st' v"
  by (cases v) (simp_all add: c_toBoolean_def)

lemma written_options:
  assumes a: "a < length st"
    and st2: "st2 = st @ [(ClientInstance, []), (PlainObject, [])]"
    and st3: "st3 = fst (options_coerce E st2 (Obj a))"
  shows "member st3 (Obj a) ''acceptUntrustedTLSCert'' =
           (if isDefined (member st (Obj a) ''acceptUntrustedTLSCert'')
            then c_toBoolean E st (member st (Obj a) ''acceptUntrustedTLSCert'') else Bool False)"
    and "member st (Obj a) ''dataFormat'' \<noteq> Obj a \<Longrightarrow>
         member st3 (Obj a) ''dataFormat'' =
           (if \<not> isEmpty E st (member st (Obj a) ''dataFormat'')
            then wsDataFormat_coerce E st (member st (Obj a) ''dataFormat'') else Str ''json'')"
    and "member st (Obj a) ''timeout'' \<noteq> Obj a \<Longrightarrow>
         member st3 (Obj a) ''timeout'' =
           (if \<not> isEmpty E st (member st (Obj a) ''timeout'')
            then timeoutMS_coerce E st (member st (Obj a) ''timeout'') else Num 5000)"
    and "k \<notin> {''acceptUntrustedTLSCert'', ''dataFormat'', ''timeout''} \<Longrightarrow>
           member st3 (Obj a) k = member st (Obj a) k"
proof -
  have a2: "a < length st2" using a by (simp add: st2)
  have m: "member st2 (Obj a) k = member st (Obj a) k" for k
    unfolding st2 using a by (rule member_fresh)
  have op: "own_props st2 v = own_props st v" for v
    unfolding st2 by (rule own_props_fresh)
  note mem = options_coerce_members [OF a2 refl refl refl refl refl st3]
  show "member st3 (Obj a) ''acceptUntrustedTLSCert'' =
           (if isDefined (member st (Obj a) ''acceptUntrustedTLSCert'')
            then c_toBoolean E st (member st (Obj a) ''acceptUntrustedTLSCert'') else Bool False)"
    unfolding mem(1) m using c_toBoolean_cong [OF op] by simp
  show "member st3 (Obj a) ''dataFormat'' =
           (if \<not> isEmpty E st (member st (Obj a) ''dataFormat'')
            then wsDataFormat_coerce E st (member st (Obj a) ''dataFormat'') else Str ''json'')"
    if ne: "member st (Obj a) ''dataFormat'' \<noteq> Obj a"
  proof -
    let ?d = "member st (Obj a) ''dataFormat''"
    have o: "own_props (assign st2 (Obj a) k x) ?d = own_props st ?d" for k x
      using own_props_assign [OF ne] op by simp
    show ?thesis
      unfolding mem(2) m
      using isEmpty_cong [OF o] wsDataFormat_coerce_cong [OF o] by simp
  qed
  show "member st3 (Obj a) ''timeout'' =
           (if \<not> isEmpty E st (member st (Obj a) ''timeout'')
            then timeoutMS_coerce E st (member st (Obj a) ''timeout'') else Num 5000)"
    if ne: "member st (Obj a) ''timeout'' \<noteq> Obj a"
  proof -
    let ?t = "member st (Obj a) ''timeout''"
    have o: "own_props (assign (assign st2 (Obj a) k x) (Obj a) k' x') ?t = own_props st ?t"
      for k x k' x'
      using own_props_assign [OF ne] op by simp
    show ?thesis
      unfolding mem(3) m
      using isEmpty_cong [OF o] timeoutMS_coerce_cong [OF o] by simp
  qed
  show "member st3 (Obj a) k = member st (Obj a) k"
    if "k \<notin> {''acceptUntrustedTLSCert'', ''dataFormat'', ''timeout''}"
    using mem(4) [OF that] m by simp
qed











lemma wsDataFormat_coerce_Str: "wsDataFormat_coerce E st (Str s) = Str (toLowerCase E s)"
  by (simp add: wsDataFormat_coerce_def c_toString_def)

lemma c_toBoolean_other:
  "\<not> isBoolean v \<Longrightarrow> c_toBoolean E st v = Bool (vp_toBoolean E v (own_props st v))"
  by (cases v) (simp_all add: c_toBoolean_def)

section \<open>The options object is shared\<close>

lemma constructed_with_options:
  assumes ok: "constructor E st argv = (st', Inr (Obj c))"
    and o: "arg argv 2 = Obj a" and a: "a < length st"
  shows "c = length st"
    and "member st' (Obj c) ''_options'' = Obj a"
    and "member st' (Obj a) k =
           member (fst (options_coerce E (st @ [(ClientInstance, []), (PlainObject, [])]) (Obj a)))
             (Obj a) k"
    and "b < length st \<Longrightarrow> b \<noteq> a \<Longrightarrow> props_of st' b = props_of st b"
proof -
  let ?st2 = "st @ [(ClientInstance, []), (PlainObject, [])]"
  let ?st3 = "fst (options_coerce E ?st2 (Obj a))"
  have opt: "Obj a = (if arg argv 2 = Undefined then Obj (Suc (length st)) else arg argv 2)"
    using o by simp
  note f = constructor_fields [OF ok opt refl refl]
  from f(1) show c: "c = length st" by simp
  show "member st' (Obj c) ''_options'' = Obj a"
    using f(4) c by simp
  show "member st' (Obj a) k = member ?st3 (Obj a) k"
    using f(5) [of a k] a by simp
  show "props_of st' b = props_of st b" if "b < length st" "b \<noteq> a"
  proof -
    from that have "props_of st' b = props_of ?st3 b"
      using f(6) [of b] by simp
    also from that have "\<dots> = props_of ?st2 b"
      by (simp add: props_of_options_coerce_other)
    also have "\<dots> = props_of st b"
      by (rule props_of_fresh)
    finally show ?thesis .
  qed
qed

lemma ascii_toLowerCase_XML: "ascii_toLowerCase ''XML'' = ''xml''"
  by (simp add: ascii_toLowerCase_def lower_letters_def upper_letters_def)

text \<open>
  C10. When the constructor succeeds on an options object \<open>a\<close> of the caller, the field
  \<^verbatim>\<open>_options\<close> of the client is the reference \<open>a\<close> itself, not a copy, so that
  reading an option through the client reads the caller's object, and the object \<open>a\<close>
  has been written in place. Under \<^verbatim>\<open>acceptUntrustedTLSCert\<close> it holds \<open>false\<close> when
  the key was undefined or null, the boolean that was there, or the boolean that
  \<^verbatim>\<open>c.toBoolean\<close> makes of any other value. Under \<^verbatim>\<open>dataFormat\<close> it holds \<open>json\<close>
  when the value was empty, and the lower case of a string that was not. Under
  \<^verbatim>\<open>timeout\<close> it holds 5000 when the value was empty, and the number of milliseconds
  that a value which was not empty resolves to: the count of a moment duration, the
  count, when it is positive, of the duration that moment makes of any other object or
  of a string. Every other key of \<open>a\<close> and every other object of the caller are as
  before.
\<close>

theorem constructor_shares_options_object:
  assumes ok: "constructor E st argv = (st', Inr (Obj c))"
    and o: "arg argv 2 = Obj a" and a: "a < length st"
    and x: "member st (Obj a) ''acceptUntrustedTLSCert'' = x"
    and d: "member st (Obj a) ''dataFormat'' = d"
    and t: "member st (Obj a) ''timeout'' = t"
  shows "member st' (Obj c) ''_options'' = Obj a \<and> a \<noteq> c \<and>
         (\<forall>k. stored_option st' c k = member st' (Obj a) k) \<and>
         (\<not> isDefined x \<longrightarrow> member st' (Obj a) ''acceptUntrustedTLSCert'' = Bool False) \<and>
         (isBoolean x \<longrightarrow> member st' (Obj a) ''acceptUntrustedTLSCert'' = x) \<and>
         (isDefined x \<and> \<not> isBoolean x \<longrightarrow>
            member st' (Obj a) ''acceptUntrustedTLSCert'' = Bool (vp_toBoolean E x (own_props st x))) \<and>
         (isEmpty E st d \<and> d \<noteq> Obj a \<longrightarrow> member st' (Obj a) ''dataFormat'' = Str ''json'') \<and>
         (\<forall>s. d = Str s \<and> \<not> isEmpty E st d \<longrightarrow>
            member st' (Obj a) ''dataFormat'' = Str (toLowerCase E s)) \<and>
         (isEmpty E st t \<and> t \<noteq> Obj a \<longrightarrow> member st' (Obj a) ''timeout'' = Num 5000) \<and>
         (\<forall>n. t = Duration (Some n) \<longrightarrow> member st' (Obj a) ''timeout'' = Num n) \<and>
         (\<forall>n. \<not> isEmpty E st t \<and> t \<noteq> Obj a \<and> (isObject t \<or> isString t) \<and>
              (\<forall>m. t \<noteq> Duration m) \<and> moment_ms E t (own_props st t) = Some n \<and> 0 < n \<longrightarrow>
            member st' (Obj a) ''timeout'' = Num n) \<and>
         (\<forall>k. k \<notin> {''acceptUntrustedTLSCert'', ''dataFormat'', ''timeout''} \<longrightarrow>
              member st' (Obj a) k = member st (Obj a) k) \<and>
         (\<forall>b. b < length st \<and> b \<noteq> a \<longrightarrow> props_of st' b = props_of st b)"
proof -
  note h = constructed_with_options [OF ok o a]
  note w = written_options [OF a refl refl, where E = E]
  from h(1) a have ne: "a \<noteq> c" by simp
  have wx: "member st' (Obj a) ''acceptUntrustedTLSCert'' =
              (if isDefined x then c_toBoolean E st x else Bool False)"
    unfolding h(3) w(1) x ..
  have wd: "member st' (Obj a) ''dataFormat'' =
              (if \<not> isEmpty E st d then wsDataFormat_coerce E st d else Str ''json'')"
    if "d \<noteq> Obj a"
    using w(2) that unfolding h(3) d by simp
  have wt: "member st' (Obj a) ''timeout'' =
              (if \<not> isEmpty E st t then timeoutMS_coerce E st t else Num 5000)"
    if "t \<noteq> Obj a"
    using w(3) that unfolding h(3) t by simp
  have 1: "\<not> isDefined x \<longrightarrow> member st' (Obj a) ''acceptUntrustedTLSCert'' = Bool False"
    by (simp add: wx)
  have 2: "isBoolean x \<longrightarrow> member st' (Obj a) ''acceptUntrustedTLSCert'' = x"
    by (cases x) (simp_all add: wx c_toBoolean_def)
  have 3: "isDefined x \<and> \<not> isBoolean x \<longrightarrow>
            member st' (Obj a) ''acceptUntrustedTLSCert'' = Bool (vp_toBoolean E x (own_props st x))"
    by (simp add: wx c_toBoolean_other)
  have 4: "isEmpty E st d \<and> d \<noteq> Obj a \<longrightarrow> member st' (Obj a) ''dataFormat'' = Str ''json''"
    by (simp add: wd)
  have 5: "\<forall>s. d = Str s \<and> \<not> isEmpty E st d \<longrightarrow>
            member st' (Obj a) ''dataFormat'' = Str (toLowerCase E s)"
    using wd by (auto simp: wsDataFormat_coerce_Str)
  have 6: "isEmpty E st t \<and> t \<noteq> Obj a \<longrightarrow> member st' (Obj a) ''timeout'' = Num 5000"
    by (simp add: wt)
  have 7: "\<forall>n. t = Duration (Some n) \<longrightarrow> member st' (Obj a) ''timeout'' = Num n"
    using wt by (auto simp: timeoutMS_coerce_def num_of_def)
  have 8: "\<forall>n. \<not> isEmpty E st t \<and> t \<noteq> Obj a \<and> (isObject t \<or> isString t) \<and>
              (\<forall>m. t \<noteq> Duration m) \<and> moment_ms E t (own_props st t) = Some n \<and> 0 < n \<longrightarrow>
            member st' (Obj a) ''timeout'' = Num n"
  proof (intro allI impI)
    fix n
    assume H: "\<not> isEmpty E st t \<and> t \<noteq> Obj a \<and> (isObject t \<or> isString t) \<and>
              (\<forall>m. t \<noteq> Duration m) \<and> moment_ms E t (own_props st t) = Some n \<and> 0 < n"
    then have "timeoutMS_coerce E st t = Num n"
      by (cases t) (auto simp: timeoutMS_coerce_def gt0_def num_of_def)
    with H show "member st' (Obj a) ''timeout'' = Num n"
      by (simp add: wt)
  qed
  have 9: "\<forall>k. k \<notin> {''acceptUntrustedTLSCert'', ''dataFormat'', ''timeout''} \<longrightarrow>
              member st' (Obj a) k = member st (Obj a) k"
    using w(4) by (simp add: h(3))
  have 10: "\<forall>b. b < length st \<and> b \<noteq> a \<longrightarrow> props_of st' b = props_of st b"
    using h(4) by blast
  have 0: "\<forall>k. stored_option st' c k = member st' (Obj a) k"
    by (simp add: stored_option_def h(2))
  from h(2) ne 0 1 2 3 4 5 6 7 8 9 10 show ?thesis
    by blast
qed

theorem constructor_shares_options_object_witness:
  "constructor example_env
       [(PlainObject, [(''dataFormat'', Str ''XML''), (''timeout'', Duration (Some 7000)),
                       (''note'', Str ''kept'')])]
       [Str ''https://localhost/'', Str token0, Obj 0]
     = ([(PlainObject, [(''dataFormat'', Str ''xml''), (''timeout'', Num 7000),
                        (''note'', Str ''kept''), (''acceptUntrustedTLSCert'', Bool False)]),
         (ClientInstance, [(''_moodleUrl'', Str ''https://localhost/''), (''_token'', Str token0),
                           (''_options'', Obj 0)]),
         (PlainObject, [])],
        Inr (Obj 1)) \<and>
   arg [Str ''https://localhost/'', Str token0, Obj 0] 2 = Obj 0 \<and>
   (0::nat) < length [(PlainObject, [(''dataFormat'', Str ''XML''),
                        (''timeout'', Duration (Some 7000)), (''note'', Str ''kept'')])] \<and>
   member [(PlainObject, [(''dataFormat'', Str ''XML''), (''timeout'', Duration (Some 7000)),
                          (''note'', Str ''kept'')])] (Obj 0) ''acceptUntrustedTLSCert''
     = Undefined \<and>
   member [(PlainObject, [(''dataFormat'', Str ''XML''), (''timeout'', Duration (Some 7000)),
                          (''note'', Str ''kept'')])] (Obj 0) ''dataFormat'' = Str ''XML'' \<and>
   member [(PlainObject, [(''dataFormat'', Str ''XML''), (''timeout'', Duration (Some 7000)),
                          (''note'', Str ''kept'')])] (Obj 0) ''timeout''
     = Duration (Some 7000) \<and>
   \<not> isEmpty example_env
       [(PlainObject, [(''dataFormat'', Str ''XML''), (''timeout'', Duration (Some 7000)),
                       (''note'', Str ''kept'')])] (Str ''XML'') \<and>
   member (fst (constructor example_env
       [(PlainObject, [(''dataFormat'', Str ''XML''), (''timeout'', Duration (Some 7000)),
                       (''note'', Str ''kept'')])]
       [Str ''https://localhost/'', Str token0, Obj 0])) (Obj 1) ''_options'' = Obj 0 \<and>
   member (fst (constructor example_env
       [(PlainObject, [(''dataFormat'', Str ''XML''), (''timeout'', Duration (Some 7000)),
                       (''note'', Str ''kept'')])]
       [Str ''https://localhost/'', Str token0, Obj 0])) (Obj 0) ''acceptUntrustedTLSCert''
     = Bool False \<and>
   member (fst (constructor example_env
       [(PlainObject, [(''dataFormat'', Str ''XML''), (''timeout'', Duration (Some 7000)),
                       (''note'', Str ''kept'')])]
       [Str ''https://localhost/'', Str token0, Obj 0])) (Obj 0) ''dataFormat'' = Str ''xml'' \<and>
   member (fst (constructor example_env
       [(PlainObject, [(''dataFormat'', Str ''XML''), (''timeout'', Duration (Some 7000)),
                       (''note'', Str ''kept'')])]
       [Str ''https://localhost/'', Str token0, Obj 0])) (Obj 0) ''timeout'' = Num 7000 \<and>
   member (fst (constructor example_env
       [(PlainObject, [(''dataFormat'', Str ''XML''), (''timeout'', Duration (Some 7000)),
                       (''note'', Str ''kept'')])]
       [Str ''https://localhost/'', Str token0, Obj 0])) (Obj 0) ''note'' = Str ''kept'' \<and>
   stored_option (fst (constructor example_env
       [(PlainObject, [(''dataFormat'', Str ''XML''), (''timeout'', Duration (Some 7000)),
                       (''note'', Str ''kept'')])]
       [Str ''https://localhost/'', Str token0, Obj 0])) 1 ''dataFormat'' = Str ''xml''"
proof -
  let ?S = "[(PlainObject, [(''dataFormat'', Str ''XML''), (''timeout'', Duration (Some 7000)),
                            (''note'', Str ''kept'')])]"
  let ?S' = "[(PlainObject, [(''dataFormat'', Str ''xml''), (''timeout'', Num 7000),
                        (''note'', Str ''kept''), (''acceptUntrustedTLSCert'', Bool False)]),
         (ClientInstance, [(''_moodleUrl'', Str ''https://localhost/''), (''_token'', Str token0),
                           (''_options'', Obj 0)]),
         (PlainObject, [])]"
  let ?argv = "[Str ''https://localhost/'', Str token0, Obj 0]"
  have h: "constructor example_env ?S ?argv = (?S', Inr (Obj 1))"
    by code_simp
  have f: "fst (constructor example_env ?S ?argv) = ?S'"
    unfolding h by simp
  have o: "arg ?argv 2 = Obj 0" by (simp add: arg_def)
  have a: "(0::nat) < length ?S" by simp
  have x: "member ?S (Obj 0) ''acceptUntrustedTLSCert'' = Undefined" by code_simp
  have d: "member ?S (Obj 0) ''dataFormat'' = Str ''XML''" by code_simp
  have t: "member ?S (Obj 0) ''timeout'' = Duration (Some 7000)" by code_simp
  have e: "\<not> isEmpty example_env ?S (Str ''XML'')"
    by (simp add: example_env_def ascii_blank_def ascii_space_def)
  have l: "toLowerCase example_env ''XML'' = ''xml''"
    by (simp add: example_env_def ascii_toLowerCase_XML)
  have n: "member ?S (Obj 0) ''note'' = Str ''kept''" by code_simp
  note T = constructor_shares_options_object [OF h o a x d t]
  note r1 = T [THEN conjunct2]
  note r2 = r1 [THEN conjunct2]
  note r3 = r2 [THEN conjunct2]
  note r4 = r3 [THEN conjunct2]
  note r5 = r4 [THEN conjunct2]
  note r6 = r5 [THEN conjunct2]
  note r7 = r6 [THEN conjunct2]
  note r8 = r7 [THEN conjunct2]
  note r9 = r8 [THEN conjunct2]
  note r10 = r9 [THEN conjunct2]
  note r11 = r10 [THEN conjunct2]
  have 1: "member ?S' (Obj 1) ''_options'' = Obj 0"
    by (rule T [THEN conjunct1])
  have 2: "member ?S' (Obj 0) ''acceptUntrustedTLSCert'' = Bool False"
    using r3 [THEN conjunct1] by simp
  have "member ?S' (Obj 0) ''dataFormat'' = Str (toLowerCase example_env ''XML'')"
    using r7 [THEN conjunct1] e by blast
  then have 3: "member ?S' (Obj 0) ''dataFormat'' = Str ''xml''"
    unfolding l .
  have 4: "member ?S' (Obj 0) ''timeout'' = Num 7000"
    using r9 [THEN conjunct1] by blast
  have "member ?S' (Obj 0) ''note'' = member ?S (Obj 0) ''note''"
    using r11 [THEN conjunct1, rule_format, of "''note''"] by simp
  then have 5: "member ?S' (Obj 0) ''note'' = Str ''kept''"
    unfolding n .
  have 6: "stored_option ?S' 1 ''dataFormat'' = Str ''xml''"
    using r2 [THEN conjunct1, rule_format, of "''dataFormat''"] 3 by simp
  show ?thesis
    unfolding f
    by (intro conjI; (rule h o a x d t e 1 2 3 4 5 6))
qed

section \<open>The timeout\<close>










end
